theory Spec2Isabelle
  imports Complex_Main "HOL-Library.Word"
begin

unbundle bit_operations_syntax

text \<open>
  A shallow embedding of parts of HemeLB: the pixel record of the visualisation
  (vis/ColPixel.h), the collision and streaming step with the Guo-Zheng-Shi wall treatment
  (lb/collisions/ImplGuoZhengShi.cc, with the velocity output of lb/io.cc) and the colloid
  boundary conditions (colloids/BoundaryConditions.cc). The definitions come first, the
  properties after them.
\<close>

section \<open>vis/ColPixel.h: pixel coordinates sharing a word with a flag\<close>

text \<open>
  A \<open>ColPixel\<close> keeps its two coordinates in the \<open>unsigned int\<close> members \<open>mI\<close> and
  \<open>mJ\<close>; the most significant bit of \<open>mI\<close> marks a glyph and that of \<open>mJ\<close> a
  streakline. The other members (ray data, streakline particle data) are not touched by
  the accessors modelled here. \<open>unsigned int\<close> is taken as 32 bits wide, as the constant
  \<open>1 << 31\<close> of the source presupposes.
\<close>

record ColPixel =
  mI :: "32 word"
  mJ :: "32 word"

definition mMostSignificantBit :: "32 word" where
  "mMostSignificantBit = push_bit 31 1"

definition SetI :: "32 word \<Rightarrow> ColPixel \<Rightarrow> ColPixel" where
  "SetI iI p = p\<lparr>mI := iI OR (mI p AND mMostSignificantBit)\<rparr>"

definition SetJ :: "32 word \<Rightarrow> ColPixel \<Rightarrow> ColPixel" where
  "SetJ iJ p = p\<lparr>mJ := iJ OR (mJ p AND mMostSignificantBit)\<rparr>"

definition GetI :: "ColPixel \<Rightarrow> 32 word" where
  "GetI p = mI p AND NOT mMostSignificantBit"

definition GetJ :: "ColPixel \<Rightarrow> 32 word" where
  "GetJ p = mJ p AND NOT mMostSignificantBit"

definition SetGlyph :: "bool \<Rightarrow> ColPixel \<Rightarrow> ColPixel" where
  "SetGlyph iIsGlyph p =
     (if iIsGlyph then p\<lparr>mI := mI p OR mMostSignificantBit\<rparr>
      else p\<lparr>mI := mI p AND NOT mMostSignificantBit\<rparr>)"

definition IsGlyph :: "ColPixel \<Rightarrow> bool" where
  "IsGlyph p = (mI p AND mMostSignificantBit \<noteq> 0)"

definition SetStreakline :: "bool \<Rightarrow> ColPixel \<Rightarrow> ColPixel" where
  "SetStreakline iIsStreakline p =
     (if iIsStreakline then p\<lparr>mJ := mJ p OR mMostSignificantBit\<rparr>
      else p\<lparr>mJ := mJ p AND NOT mMostSignificantBit\<rparr>)"

definition IsStreakline :: "ColPixel \<Rightarrow> bool" where
  "IsStreakline p = (mJ p AND mMostSignificantBit \<noteq> 0)"

text \<open>A caller's use of a pixel is a sequence of calls of the four setters.\<close>

datatype pixel_call =
  CallSetI "32 word" | CallSetJ "32 word" | CallSetGlyph bool | CallSetStreakline bool

fun call :: "pixel_call \<Rightarrow> ColPixel \<Rightarrow> ColPixel" where
  "call (CallSetI v) p = SetI v p"
| "call (CallSetJ v) p = SetJ v p"
| "call (CallSetGlyph b) p = SetGlyph b p"
| "call (CallSetStreakline b) p = SetStreakline b p"

fun calls :: "pixel_call list \<Rightarrow> ColPixel \<Rightarrow> ColPixel" where
  "calls [] p = p"
| "calls (c # cs) p = calls cs (call c p)"

text \<open>
  What the four getters are meant to show: two coordinates and two flags that do not
  interfere. This is the reading of the claim, against which the words are compared.
\<close>

record pixel_view =
  viewI :: "32 word"
  viewJ :: "32 word"
  viewGlyph :: bool
  viewStreakline :: bool

definition view :: "ColPixel \<Rightarrow> pixel_view" where
  "view p = \<lparr>viewI = GetI p, viewJ = GetJ p, viewGlyph = IsGlyph p,
             viewStreakline = IsStreakline p\<rparr>"

fun last_set :: "pixel_call \<Rightarrow> pixel_view \<Rightarrow> pixel_view" where
  "last_set (CallSetI v) a = a\<lparr>viewI := v\<rparr>"
| "last_set (CallSetJ v) a = a\<lparr>viewJ := v\<rparr>"
| "last_set (CallSetGlyph b) a = a\<lparr>viewGlyph := b\<rparr>"
| "last_set (CallSetStreakline b) a = a\<lparr>viewStreakline := b\<rparr>"

fun last_sets :: "pixel_call list \<Rightarrow> pixel_view \<Rightarrow> pixel_view" where
  "last_sets [] a = a"
| "last_sets (c # cs) a = last_sets cs (last_set c a)"

fun coordinate_below :: "pixel_call \<Rightarrow> bool" where
  "coordinate_below (CallSetI v) = (v < 2 ^ 31)"
| "coordinate_below (CallSetJ v) = (v < 2 ^ 31)"
| "coordinate_below (CallSetGlyph b) = True"
| "coordinate_below (CallSetStreakline b) = True"

section \<open>The D3Q15 lattice and its moment and equilibrium calculator\<close>

text \<open>
  Distribution values are C++ \<open>double\<close>s. They are modelled as exact reals: every
  statement below is about the arithmetic expressions the code evaluates, not about their
  rounding, and holds where no division by zero occurs.
\<close>

definition NUMVECTORS :: nat where
  "NUMVECTORS = 15"

text \<open>
  Modelled from the spec: the tables \<open>D3Q15::CX\<close>, \<open>CY\<close>, \<open>CZ\<close> and
  \<open>D3Q15::INVERSEDIRECTIONS\<close> are not part of the sources at hand. The spec fixes a
  direction set with the rest vector at index 0 and an inverse table that pairs each direction
  with its negation; the end-to-end scenario fixes its size at 15. The ordering taken here
  has the six face vectors at 1 to 6 (as colloids/BoundaryConditions.cc says of "lattice
  vectors 1 to 6") followed by the eight cube diagonals, each direction next to its negation.
\<close>

definition CX :: "nat \<Rightarrow> real" where
  "CX i = [0, 1, -1, 0, 0, 0, 0, 1, -1, 1, -1, 1, -1, 1, -1] ! i"

definition CY :: "nat \<Rightarrow> real" where
  "CY i = [0, 0, 0, 1, -1, 0, 0, 1, -1, 1, -1, -1, 1, -1, 1] ! i"

definition CZ :: "nat \<Rightarrow> real" where
  "CZ i = [0, 0, 0, 0, 0, 1, -1, 1, -1, -1, 1, 1, -1, -1, 1] ! i"

definition INVERSEDIRECTIONS :: "nat \<Rightarrow> nat" where
  "INVERSEDIRECTIONS i = [0, 2, 1, 4, 3, 6, 5, 8, 7, 10, 9, 12, 11, 14, 13] ! i"

definition weight :: "nat \<Rightarrow> real" where
  "weight i = (if i = 0 then 2 / 9 else if i < 7 then 1 / 9 else 1 / 72)"

record HydroVars =
  density :: real
  v_x :: real
  v_y :: real
  v_z :: real
  f_eq :: "nat \<Rightarrow> real"

text \<open>
  Modelled from the spec: \<open>D3Q15::CalculateFeq\<close> is not part of the sources at hand. The
  spec asks for "the standard second-order lattice-Boltzmann equilibrium expansion in
  velocity", a function of density and velocity only; the weights are those of the
  15-velocity lattice, 2/9 at rest, 1/9 along the faces and 1/72 along the diagonals.
\<close>

definition CalculateFeq :: "real \<Rightarrow> real \<Rightarrow> real \<Rightarrow> real \<Rightarrow> nat \<Rightarrow> real" where
  "CalculateFeq rho ux uy uz i =
     (let cu = CX i * ux + CY i * uy + CZ i * uz
      in weight i * rho * (1 + 3 * cu + 9 / 2 * (cu * cu) - 3 / 2 * (ux * ux + uy * uy + uz * uz)))"

text \<open>
  Modelled from the spec: \<open>D3Q15::CalculateDensityVelocityFEq\<close> is not part of the sources
  at hand. The spec (4.1): density is the sum of all entries, the velocity is the sum of the
  direction vectors weighted by the entries and divided by the density, the equilibrium is
  the expansion above at that density and velocity. The argument is the site's slice of the
  distribution array, read at 0 to 14.
\<close>

definition CalculateDensityVelocityFEq :: "(nat \<Rightarrow> real) \<Rightarrow> HydroVars" where
  "CalculateDensityVelocityFEq f =
     (let rho = (\<Sum>i = 0..<NUMVECTORS. f i);
          ux = (\<Sum>i = 0..<NUMVECTORS. f i * CX i) / rho;
          uy = (\<Sum>i = 0..<NUMVECTORS. f i * CY i) / rho;
          uz = (\<Sum>i = 0..<NUMVECTORS. f i * CZ i) / rho
      in \<lparr>density = rho, v_x = ux, v_y = uy, v_z = uz, f_eq = CalculateFeq rho ux uy uz\<rparr>)"

text \<open>
  lb/io.cc, \<open>LBM::WriteConfig\<close>, lines 632 to 679, for a site of plain fluid type: what is
  written out as the site's velocity (\<open>LBM::WriteConfigParallel\<close> does the same at lines
  953 to 1000). \<open>ConvertVelocityToPhysicalUnits\<close> is not part of the sources at hand and
  is a parameter.
\<close>

definition WriteConfig_velocity ::
  "(real \<Rightarrow> real) \<Rightarrow> (nat \<Rightarrow> real) \<Rightarrow> real \<times> real \<times> real" where
  "WriteConfig_velocity ConvertVelocityToPhysicalUnits f =
     (let h = CalculateDensityVelocityFEq f;
          vx = v_x h / density h;
          vy = v_y h / density h;
          vz = v_z h / density h
      in (ConvertVelocityToPhysicalUnits vx, ConvertVelocityToPhysicalUnits vy,
          ConvertVelocityToPhysicalUnits vz))"

section \<open>lb/collisions/ImplGuoZhengShi.cc: collision, streaming and the wall treatment\<close>

text \<open>
  \<open>LocalLatticeData\<close> holds the two distribution arrays, \<open>FOld\<close> (read) and \<open>FNew\<close>
  (written), with the 15 values of site \<open>s\<close> at \<open>15 * s\<close> to \<open>15 * s + 14\<close>. Its accessors
  \<open>GetStreamedIndex\<close>, \<open>HasBoundary\<close> and \<open>GetCutDistance\<close> read geometry tables that
  are set up elsewhere; they are fields here. Arrays are stores from index to value.
\<close>

record LocalLatticeData =
  FOld :: "nat \<Rightarrow> real"
  FNew :: "nat \<Rightarrow> real"
  GetStreamedIndex :: "nat \<Rightarrow> nat \<Rightarrow> nat"
  HasBoundary :: "nat \<Rightarrow> nat \<Rightarrow> bool"
  GetCutDistance :: "nat \<Rightarrow> nat \<Rightarrow> real"

text \<open>The pointer \<open>f = &FOld[lIndex * NUMVECTORS]\<close>.\<close>

definition site_f :: "LocalLatticeData \<Rightarrow> nat \<Rightarrow> nat \<Rightarrow> real" where
  "site_f L lIndex ii = FOld L (lIndex * NUMVECTORS + ii)"

text \<open>The array \<open>f_neq\<close>, filled by the assignment inside the streaming loop.\<close>

definition site_f_neq :: "LocalLatticeData \<Rightarrow> nat \<Rightarrow> nat \<Rightarrow> real" where
  "site_f_neq L lIndex ii =
     site_f L lIndex ii - f_eq (CalculateDensityVelocityFEq (site_f L lIndex)) ii"

text \<open>One pass of the first inner loop (lines 51 to 55): collide and stream direction \<open>ii\<close>.\<close>

definition stream_direction ::
  "real \<Rightarrow> LocalLatticeData \<Rightarrow> nat \<Rightarrow> nat \<Rightarrow> (nat \<Rightarrow> real) \<Rightarrow> (nat \<Rightarrow> real)" where
  "stream_direction Omega L lIndex ii fnew =
     (let f = site_f L lIndex;
          lFEq = f_eq (CalculateDensityVelocityFEq f)
      in fnew(GetStreamedIndex L lIndex ii := f ii + Omega * (f ii - lFEq ii)))"

text \<open>The first inner loop, run for \<open>ii = 0\<close> up to but excluding \<open>n\<close>.\<close>

definition stream_loop ::
  "real \<Rightarrow> LocalLatticeData \<Rightarrow> nat \<Rightarrow> nat \<Rightarrow> (nat \<Rightarrow> real) \<Rightarrow> (nat \<Rightarrow> real)" where
  "stream_loop Omega L lIndex n fnew = fold (stream_direction Omega L lIndex) [0..<n] fnew"

text \<open>
  Lines 64 to 113 for a direction \<open>l\<close> with a wall: the wall velocity \<open>uWall\<close> and the
  non-equilibrium part \<open>fNeq\<close>, after the optional interpolation with the next node out.
\<close>

definition wall_estimate :: "LocalLatticeData \<Rightarrow> nat \<Rightarrow> nat \<Rightarrow> (real \<times> real \<times> real) \<times> real" where
  "wall_estimate L lIndex l =
     (let lAwayFromWallIndex = INVERSEDIRECTIONS l;
          h = CalculateDensityVelocityFEq (site_f L lIndex);
          delta = GetCutDistance L lIndex l;
          uWall0 = (1 - 1 / delta) * v_x h;
          uWall1 = (1 - 1 / delta) * v_y h;
          uWall2 = (1 - 1 / delta) * v_z h;
          fNeq = site_f_neq L lIndex lAwayFromWallIndex
      in if delta < 0.75 then
           if \<not> HasBoundary L lIndex lAwayFromWallIndex then
             (let nextIOut = GetStreamedIndex L lIndex lAwayFromWallIndex div NUMVECTORS;
                  nextNode = CalculateDensityVelocityFEq (site_f L nextIOut)
              in ((delta * uWall0 + (1 - delta) * (delta - 1) * v_x nextNode / (1 + delta),
                   delta * uWall1 + (1 - delta) * (delta - 1) * v_y nextNode / (1 + delta),
                   delta * uWall2 + (1 - delta) * (delta - 1) * v_z nextNode / (1 + delta)),
                  delta * fNeq + (1 - delta)
                    * (FOld L (nextIOut * NUMVECTORS + lAwayFromWallIndex)
                       - f_eq nextNode lAwayFromWallIndex)))
           else ((0, 0, 0), 0)
         else ((uWall0, uWall1, uWall2), fNeq))"

text \<open>
  One pass of the second inner loop (lines 60 to 125): where direction \<open>l\<close> has a wall,
  the site's own entry for the opposite direction is filled in.
\<close>

definition wall_direction ::
  "real \<Rightarrow> LocalLatticeData \<Rightarrow> nat \<Rightarrow> nat \<Rightarrow> (nat \<Rightarrow> real) \<Rightarrow> (nat \<Rightarrow> real)" where
  "wall_direction Omega L lIndex l fnew =
     (let lAwayFromWallIndex = INVERSEDIRECTIONS l
      in if HasBoundary L lIndex l then
           (case wall_estimate L lIndex l of
              ((uWall0, uWall1, uWall2), fNeq) \<Rightarrow>
                (let fEqTemp = CalculateFeq (density (CalculateDensityVelocityFEq (site_f L lIndex)))
                                 uWall0 uWall1 uWall2
                 in fnew(lIndex * NUMVECTORS + lAwayFromWallIndex :=
                           fEqTemp lAwayFromWallIndex + (1 + Omega) * fNeq)))
         else fnew)"

text \<open>The second inner loop, run for \<open>l = 1\<close> up to but excluding \<open>n\<close>.\<close>

definition wall_loop ::
  "real \<Rightarrow> LocalLatticeData \<Rightarrow> nat \<Rightarrow> nat \<Rightarrow> (nat \<Rightarrow> real) \<Rightarrow> (nat \<Rightarrow> real)" where
  "wall_loop Omega L lIndex n fnew = fold (wall_direction Omega L lIndex) [1..<n] fnew"

text \<open>
  The body of the outer loop for one site. It closes with a call of
  \<open>UpdateMinsAndMaxes\<close>, which is not part of the sources at hand; by the spec (4.4) it
  accumulates extrema for the visualisation and does not change the simulation state, and
  it is left out here.
\<close>

definition collide_site :: "real \<Rightarrow> nat \<Rightarrow> LocalLatticeData \<Rightarrow> LocalLatticeData" where
  "collide_site Omega lIndex L =
     L\<lparr>FNew := wall_loop Omega L lIndex NUMVECTORS
                 (stream_loop Omega L lIndex NUMVECTORS (FNew L))\<rparr>"

definition DoCollisionsInternal ::
  "nat \<Rightarrow> nat \<Rightarrow> real \<Rightarrow> LocalLatticeData \<Rightarrow> LocalLatticeData" where
  "DoCollisionsInternal iFirstIndex iSiteCount Omega L =
     fold (collide_site Omega) [iFirstIndex..<iFirstIndex + iSiteCount] L"

text \<open>
  The entry point chooses the instance with or without ray tracing; the two differ in
  \<open>UpdateMinsAndMaxes\<close> only.
\<close>

definition DoCollisions ::
  "bool \<Rightarrow> nat \<Rightarrow> nat \<Rightarrow> real \<Rightarrow> LocalLatticeData \<Rightarrow> LocalLatticeData" where
  "DoCollisions iDoRayTracing iFirstIndex iSiteCount Omega L =
     (if iDoRayTracing then DoCollisionsInternal iFirstIndex iSiteCount Omega L
      else DoCollisionsInternal iFirstIndex iSiteCount Omega L)"

text \<open>The sum of one distribution array over the first \<open>n\<close> sites and all directions.\<close>

definition total :: "nat \<Rightarrow> (nat \<Rightarrow> real) \<Rightarrow> real" where
  "total n F = (\<Sum>k = 0..<n * NUMVECTORS. F k)"

section \<open>colloids/BoundaryConditions.cc: a particle near the boundary\<close>

type_synonym LatticePosition = "real \<times> real \<times> real"

type_synonym SitePosition = "int \<times> int \<times> int"

datatype SiteType = SOLID_TYPE | FLUID_TYPE | INLET_TYPE | OUTLET_TYPE

text \<open>What the function reads of a site: its type, its edge flag and its wall distances.\<close>

record Site =
  GetSiteType :: SiteType
  IsEdge :: bool
  GetWallDistances :: "nat \<Rightarrow> real"

text \<open>
  \<open>GetContiguousSiteId\<close> returns whether the position is a fluid site of this process
  and, through a reference, its local id: an optional id here.
\<close>

record LatticeData =
  GetContiguousSiteId :: "SitePosition \<Rightarrow> nat option"
  GetSite :: "nat \<Rightarrow> Site"

record Particle =
  GetParticleId :: nat
  GetOwnerRank :: nat
  GetGlobalPosition :: LatticePosition

text \<open>
  A boundary condition's \<open>DoSomethingToParticle\<close> may change the particle it is given
  and answers whether to keep it.
\<close>

type_synonym BoundaryCondition = "Particle \<Rightarrow> LatticePosition list \<Rightarrow> bool \<times> Particle"

text \<open>
  The static members of the class. Lines 135 to 140 build the vector from the particle to
  the wall with the arithmetic of \<open>util::Vector3D\<close> and \<open>LatticeInfo::GetVector\<close>, which
  are not part of the sources at hand: the construction is the field \<open>particleToWallVector\<close>,
  a function of the direction, the distance used, the site and the particle's position.
\<close>

record BoundaryConditions =
  boundaryConditionsWall :: "BoundaryCondition list"
  boundaryConditionsInlet :: "BoundaryCondition list"
  boundaryConditionsOutlet :: "BoundaryCondition list"
  latticeData :: LatticeData
  particleToWallVector :: "nat \<Rightarrow> real \<Rightarrow> SitePosition \<Rightarrow> LatticePosition \<Rightarrow> LatticePosition"

text \<open>The cast \<open>(site_t)\<close> of a \<open>double\<close> drops the fraction, towards zero.\<close>

definition site_t :: "real \<Rightarrow> int" where
  "site_t r = (if 0 \<le> r then \<lfloor>r\<rfloor> else \<lceil>r\<rceil>)"

definition siteGlobalPosition :: "Particle \<Rightarrow> SitePosition" where
  "siteGlobalPosition particle =
     (case GetGlobalPosition particle of
        (x, y, z) \<Rightarrow> (site_t (0.5 + x), site_t (0.5 + y), site_t (0.5 + z)))"

text \<open>
  The claim's words for the site looked up, "the particle's global position rounded to the
  nearest lattice site": each coordinate rounded to the nearest integer. This is the
  reading of the claim, against which \<open>siteGlobalPosition\<close> is compared.
\<close>

definition nearestSite :: "Particle \<Rightarrow> SitePosition" where
  "nearestSite particle =
     (case GetGlobalPosition particle of (x, y, z) \<Rightarrow> (round x, round y, round z))"

text \<open>
  Lines 123 to 133: the distance used for a direction, from the site's raw wall distance.
  \<open>None\<close> is the \<open>continue\<close> that skips the direction.
\<close>

definition thisDistance :: "real \<Rightarrow> real option" where
  "thisDistance raw = (if raw < 0 then None else Some (if raw > 0.5 then 0.5 else raw))"

text \<open>The loop over the face directions 1 to 6 (lines 117 to 143).\<close>

definition particleToWallVectors ::
  "BoundaryConditions \<Rightarrow> Site \<Rightarrow> Particle \<Rightarrow> LatticePosition list" where
  "particleToWallVectors B site particle =
     concat (map (\<lambda>direction.
        case thisDistance (GetWallDistances site (direction - 1)) of
          None \<Rightarrow> []
        | Some d \<Rightarrow> [particleToWallVector B direction d (siteGlobalPosition particle)
                        (GetGlobalPosition particle)]) [1..<7])"

text \<open>
  One of the three loops over a list of boundary conditions: every condition is called
  (\<open>keep &= ...\<close> does not cut short). The last component counts the calls made.
\<close>

definition applyConditions ::
  "BoundaryCondition list \<Rightarrow> LatticePosition list \<Rightarrow> bool \<times> Particle \<times> nat
     \<Rightarrow> bool \<times> Particle \<times> nat" where
  "applyConditions bcs vectors st =
     fold (\<lambda>bc (keep, particle, n).
             case bc particle vectors of (k, particle') \<Rightarrow> (keep \<and> k, particle', Suc n))
          bcs st"

text \<open>
  The result is the returned flag, the particle as the call leaves it and the number of
  boundary conditions called. The two \<open>printf\<close> calls are left out.
\<close>

definition DoSomeThingsToParticle ::
  "BoundaryConditions \<Rightarrow> Particle \<Rightarrow> bool \<times> Particle \<times> nat" where
  "DoSomeThingsToParticle B particle =
     (let keep = True
      in case GetContiguousSiteId (latticeData B) (siteGlobalPosition particle) of
           None \<Rightarrow> (\<not> keep, particle, 0)
         | Some localContiguousId \<Rightarrow>
             (let site = GetSite (latticeData B) localContiguousId;
                  isNearWall = IsEdge site;
                  isNearInlet = (GetSiteType site = INLET_TYPE);
                  isNearOutlet = (GetSiteType site = OUTLET_TYPE)
              in if \<not> isNearWall \<and> \<not> isNearInlet \<and> \<not> isNearOutlet then (keep, particle, 0)
                 else
                   (let vectors = particleToWallVectors B site particle;
                        st0 = (keep, particle, 0);
                        st1 = (if isNearWall
                               then applyConditions (boundaryConditionsWall B) vectors st0
                               else st0);
                        st2 = (if isNearInlet
                               then applyConditions (boundaryConditionsInlet B) vectors st1
                               else st1);
                        st3 = (if isNearOutlet
                               then applyConditions (boundaryConditionsOutlet B) vectors st2
                               else st2)
                    in st3)))"

section \<open>Concrete lattices and particles\<close>

text \<open>The distribution of the end-to-end scenario: \<open>(i + 1) / 10\<close> in direction \<open>i\<close>.\<close>

definition scenario_f :: "nat \<Rightarrow> real" where
  "scenario_f i = (real i + 1) / 10"

text \<open>
  Two sites, each holding one unit in the rest direction and nothing else, so both are at
  rest. Site 0 has walls in directions 1 (at half a lattice step) and 3 (at three quarters);
  its direction 2 is open and leads to site 1. Site 1 has walls in the opposite directions
  5 and 6.
\<close>

definition wall_lattice :: LocalLatticeData where
  "wall_lattice =
     \<lparr>FOld = (\<lambda>k. if k = 0 \<or> k = 15 then 1 else 0),
      FNew = (\<lambda>k. 0),
      GetStreamedIndex = (\<lambda>i d. if i = 0 \<and> d = 2 then 17 else i * 15 + d),
      HasBoundary = (\<lambda>i d. (i = 0 \<and> (d = 1 \<or> d = 3)) \<or> (i = 1 \<and> (d = 5 \<or> d = 6))),
      GetCutDistance = (\<lambda>i d. if d = 3 then 3 / 4 else 1 / 2)\<rparr>"

text \<open>The same geometry with both sites moving along the first axis, at different speeds.\<close>

definition shear_lattice :: LocalLatticeData where
  "shear_lattice =
     wall_lattice\<lparr>FOld := (\<lambda>k. if k = 0 \<or> k = 1 \<or> k = 15 then 1 else if k = 16 then 1 / 2 else 0)\<rparr>"

text \<open>
  Two sites without walls, closed on themselves: the rest direction stays, every other
  direction leads to the other site. Every entry is one.
\<close>

definition closed_lattice :: LocalLatticeData where
  "closed_lattice =
     \<lparr>FOld = (\<lambda>k. 1),
      FNew = (\<lambda>k. 0),
      GetStreamedIndex = (\<lambda>i d. (if d = 0 then i else 1 - i) * 15 + d),
      HasBoundary = (\<lambda>i d. False),
      GetCutDistance = (\<lambda>i d. 0)\<rparr>"

text \<open>
  Two fluid sites of this process, at the origin (in the bulk) and next to it (at the
  wall, with the wall at the site itself in direction 1 and far off in direction 2), and
  one wall condition that marks the particle and looks at the vectors it is given.
\<close>

definition bulk_site :: Site where
  "bulk_site = \<lparr>GetSiteType = FLUID_TYPE, IsEdge = False, GetWallDistances = (\<lambda>k. - 1)\<rparr>"

definition edge_site :: Site where
  "edge_site =
     \<lparr>GetSiteType = FLUID_TYPE, IsEdge = True,
      GetWallDistances = (\<lambda>k. if k = 0 then 0 else if k = 1 then 7 / 10 else - 1)\<rparr>"

definition two_sites :: BoundaryConditions where
  "two_sites =
     \<lparr>boundaryConditionsWall = [\<lambda>p vs. (length vs < 2, p\<lparr>GetOwnerRank := 7\<rparr>)],
      boundaryConditionsInlet = [],
      boundaryConditionsOutlet = [],
      latticeData =
        \<lparr>GetContiguousSiteId =
           (\<lambda>pos. if pos = (0, 0, 0) then Some 0 else if pos = (1, 0, 0) then Some 1 else None),
         GetSite = (\<lambda>i. if i = 0 then bulk_site else edge_site)\<rparr>,
      particleToWallVector = (\<lambda>direction d site position. (d, 0, 0))\<rparr>"

definition particle_at :: "LatticePosition \<Rightarrow> Particle" where
  "particle_at position = \<lparr>GetParticleId = 1, GetOwnerRank = 0, GetGlobalPosition = position\<rparr>"

section \<open>Properties of ColPixel\<close>

lemma bit_mMostSignificantBit: "bit mMostSignificantBit n \<longleftrightarrow> n = 31"
proof -
  have "bit (push_bit 31 (1::32 word)) n \<longleftrightarrow> n = 31"
    by (simp only: bit_push_bit_iff bit_1_iff possible_bit_word) auto
  then show ?thesis by (simp only: mMostSignificantBit_def)
qed

lemma mMostSignificantBit_nonzero: "mMostSignificantBit \<noteq> 0"
  by (simp add: mMostSignificantBit_def)

lemma below_top_bit_clear:
  fixes v :: "32 word"
  assumes "v < 2 ^ 31"
  shows "\<not> bit v 31"
proof -
  have "v AND mask 31 = v" using assms by (rule less_mask_eq)
  then have "bit v 31 = bit (v AND mask 31) 31" by simp
  then show ?thesis by (simp only: bit_and_iff bit_mask_iff) simp
qed

lemma coordinate_kept:
  fixes v :: "32 word"
  assumes "v < 2 ^ 31"
  shows "(v OR (m AND mMostSignificantBit)) AND NOT mMostSignificantBit = v"
  using below_top_bit_clear [OF assms]
  by (intro bit_eqI) (auto simp: bit_simps bit_mMostSignificantBit)

lemma flag_kept:
  fixes v :: "32 word"
  assumes "v < 2 ^ 31"
  shows "(v OR (m AND mMostSignificantBit)) AND mMostSignificantBit = m AND mMostSignificantBit"
  using below_top_bit_clear [OF assms]
  by (intro bit_eqI) (auto simp: bit_simps bit_mMostSignificantBit)

lemma flag_raised_coordinate:
  "(m OR mMostSignificantBit) AND NOT mMostSignificantBit = m AND NOT mMostSignificantBit"
  by (intro bit_eqI) (auto simp: bit_simps bit_mMostSignificantBit)

lemma flag_raised: "(m OR mMostSignificantBit) AND mMostSignificantBit \<noteq> 0"
proof
  assume "(m OR mMostSignificantBit) AND mMostSignificantBit = 0"
  then have "bit ((m OR mMostSignificantBit) AND mMostSignificantBit) 31 = bit (0::32 word) 31"
    by simp
  then show False by (simp add: bit_simps bit_mMostSignificantBit)
qed

lemma flag_cleared: "(m AND NOT mMostSignificantBit) AND mMostSignificantBit = 0"
  by (intro bit_eqI) (auto simp: bit_simps bit_mMostSignificantBit)

lemma flag_cleared_coordinate:
  "(m AND NOT mMostSignificantBit) AND NOT mMostSignificantBit = m AND NOT mMostSignificantBit"
  by (intro bit_eqI) (auto simp: bit_simps bit_mMostSignificantBit)

lemma view_call:
  assumes "coordinate_below c"
  shows "view (call c p) = last_set c (view p)"
  using assms
  by (cases c)
     (simp_all add: view_def SetI_def SetJ_def SetGlyph_def SetStreakline_def GetI_def GetJ_def
        IsGlyph_def IsStreakline_def coordinate_kept flag_kept flag_raised_coordinate
        flag_raised flag_cleared flag_cleared_coordinate mMostSignificantBit_nonzero)

text \<open>
  Claim C9. Through any sequence of calls of \<open>SetI\<close>, \<open>SetJ\<close>, \<open>SetGlyph\<close> and
  \<open>SetStreakline\<close> whose coordinates are all below \<open>2^31\<close>, started from any contents of
  the two words, the four getters show two coordinates and two flags that do not interfere:
  \<open>GetI\<close> and \<open>GetJ\<close> return the value last passed to \<open>SetI\<close> and \<open>SetJ\<close>, the flag
  setters leave them as they are, and \<open>IsGlyph\<close> and \<open>IsStreakline\<close> return the flag
  last set.
\<close>

theorem C9_coordinates_and_flags:
  assumes "list_all coordinate_below cs"
  shows "view (calls cs p) = last_sets cs (view p)"
  using assms
proof (induction cs arbitrary: p)
  case Nil
  show ?case by simp
next
  case (Cons c cs)
  then have "coordinate_below c" and "list_all coordinate_below cs" by simp_all
  then show ?case by (simp add: view_call Cons.IH)
qed

theorem C9_coordinates_and_flags_witness:
  "list_all coordinate_below
     [CallSetGlyph True, CallSetI 5, CallSetJ 7, CallSetStreakline True, CallSetI 9,
      CallSetStreakline False]
   \<and> view (calls [CallSetGlyph True, CallSetI 5, CallSetJ 7, CallSetStreakline True, CallSetI 9,
                  CallSetStreakline False] \<lparr>mI = 0xFFFFFFFF, mJ = 0x80000003\<rparr>)
     = \<lparr>viewI = 9, viewJ = 7, viewGlyph = True, viewStreakline = False\<rparr>"
proof -
  have below: "list_all coordinate_below
     [CallSetGlyph True, CallSetI 5, CallSetJ 7, CallSetStreakline True, CallSetI 9,
      CallSetStreakline False]"
    by simp
  show ?thesis
    using below C9_coordinates_and_flags [OF below, of "\<lparr>mI = 0xFFFFFFFF, mJ = 0x80000003\<rparr>"]
    by (simp add: view_def)
qed

section \<open>Properties of the collision and streaming step\<close>

subsection \<open>The two inner loops\<close>

lemma stream_loop_Suc:
  "stream_loop Omega L lIndex (Suc n) fnew =
     stream_direction Omega L lIndex n (stream_loop Omega L lIndex n fnew)"
  by (simp add: stream_loop_def)

text \<open>Passes of the streaming loop that write elsewhere leave an entry as it was.\<close>

lemma stream_loop_frame:
  assumes "n \<le> m"
    and "\<forall>d'. n \<le> d' \<and> d' < m \<longrightarrow> GetStreamedIndex L lIndex d' \<noteq> k"
  shows "stream_loop Omega L lIndex m fnew k = stream_loop Omega L lIndex n fnew k"
  using assms
proof (induction m)
  case 0
  then show ?case by simp
next
  case (Suc m)
  show ?case
  proof (cases "n = Suc m")
    case True
    then show ?thesis by simp
  next
    case False
    with Suc.prems have le: "n \<le> m" by simp
    from Suc.prems le have "GetStreamedIndex L lIndex m \<noteq> k" by simp
    moreover have "stream_loop Omega L lIndex m fnew k = stream_loop Omega L lIndex n fnew k"
      using Suc.IH le Suc.prems by simp
    ultimately show ?thesis
      by (simp add: stream_loop_Suc stream_direction_def Let_def)
  qed
qed

lemma stream_loop_entry:
  assumes "d < n"
    and "\<forall>d'. d < d' \<and> d' < n \<longrightarrow> GetStreamedIndex L lIndex d' \<noteq> GetStreamedIndex L lIndex d"
  shows "stream_loop Omega L lIndex n fnew (GetStreamedIndex L lIndex d)
           = site_f L lIndex d
             + Omega * (site_f L lIndex d - f_eq (CalculateDensityVelocityFEq (site_f L lIndex)) d)"
proof -
  have "stream_loop Omega L lIndex n fnew (GetStreamedIndex L lIndex d)
          = stream_loop Omega L lIndex (Suc d) fnew (GetStreamedIndex L lIndex d)"
    using assms by (intro stream_loop_frame) simp_all
  then show ?thesis
    by (simp add: stream_loop_Suc stream_direction_def Let_def)
qed

lemma direction_cases:
  assumes "d < NUMVECTORS"
  shows "d \<in> {0, 1, 2, 3, 4, 5, 6, 7, 8, 9, 10, 11, 12, 13, 14}"
  using assms unfolding NUMVECTORS_def by simp arith

lemma INVERSEDIRECTIONS_involution:
  assumes "d < NUMVECTORS"
  shows "INVERSEDIRECTIONS (INVERSEDIRECTIONS d) = d"
  using direction_cases [OF assms] by (auto simp: INVERSEDIRECTIONS_def)

lemma INVERSEDIRECTIONS_inject:
  assumes "d < NUMVECTORS" "d' < NUMVECTORS" "INVERSEDIRECTIONS d = INVERSEDIRECTIONS d'"
  shows "d = d'"
  using assms by (metis INVERSEDIRECTIONS_involution)

lemma wall_loop_Suc:
  assumes "1 \<le> n"
  shows "wall_loop Omega L lIndex (Suc n) fnew =
     wall_direction Omega L lIndex n (wall_loop Omega L lIndex n fnew)"
  using assms by (simp add: wall_loop_def)

text \<open>Passes of the wall loop that write elsewhere leave an entry as it was.\<close>

lemma wall_loop_frame:
  assumes "n \<le> m" "1 \<le> n"
    and "\<forall>l. n \<le> l \<and> l < m \<and> HasBoundary L lIndex l
           \<longrightarrow> lIndex * NUMVECTORS + INVERSEDIRECTIONS l \<noteq> k"
  shows "wall_loop Omega L lIndex m fnew k = wall_loop Omega L lIndex n fnew k"
  using assms
proof (induction m)
  case 0
  then show ?case by simp
next
  case (Suc m)
  show ?case
  proof (cases "n = Suc m")
    case True
    then show ?thesis by simp
  next
    case False
    with Suc.prems have le: "n \<le> m" by simp
    with Suc.prems have one: "1 \<le> m" by simp
    have keep: "wall_direction Omega L lIndex m g k = g k" for g
    proof (cases "HasBoundary L lIndex m")
      case True
      with Suc.prems le have "lIndex * NUMVECTORS + INVERSEDIRECTIONS m \<noteq> k" by simp
      then show ?thesis
        by (simp add: wall_direction_def Let_def split: prod.splits)
    next
      case False
      then show ?thesis by (simp add: wall_direction_def)
    qed
    have "wall_loop Omega L lIndex m fnew k = wall_loop Omega L lIndex n fnew k"
      using Suc.IH le Suc.prems by simp
    then show ?thesis
      by (simp add: wall_loop_Suc [OF one] keep)
  qed
qed

lemma wall_loop_entry:
  assumes "1 \<le> d" "d < NUMVECTORS" "HasBoundary L lIndex d"
  shows "wall_loop Omega L lIndex NUMVECTORS fnew (lIndex * NUMVECTORS + INVERSEDIRECTIONS d)
           = (case wall_estimate L lIndex d of
                ((uWall0, uWall1, uWall2), fNeq) \<Rightarrow>
                  CalculateFeq (density (CalculateDensityVelocityFEq (site_f L lIndex)))
                    uWall0 uWall1 uWall2 (INVERSEDIRECTIONS d)
                  + (1 + Omega) * fNeq)"
  (is "_ = ?v")
proof -
  have "wall_loop Omega L lIndex NUMVECTORS fnew (lIndex * NUMVECTORS + INVERSEDIRECTIONS d)
          = wall_loop Omega L lIndex (Suc d) fnew (lIndex * NUMVECTORS + INVERSEDIRECTIONS d)"
  proof (rule wall_loop_frame)
    show "Suc d \<le> NUMVECTORS" using assms by simp
    show "1 \<le> Suc d" by simp
    show "\<forall>l. Suc d \<le> l \<and> l < NUMVECTORS \<and> HasBoundary L lIndex l
           \<longrightarrow> lIndex * NUMVECTORS + INVERSEDIRECTIONS l
                 \<noteq> lIndex * NUMVECTORS + INVERSEDIRECTIONS d"
    proof (intro allI impI)
      fix l assume l: "Suc d \<le> l \<and> l < NUMVECTORS \<and> HasBoundary L lIndex l"
      then have "INVERSEDIRECTIONS l \<noteq> INVERSEDIRECTIONS d"
        using INVERSEDIRECTIONS_inject [of l d] assms by auto
      then show "lIndex * NUMVECTORS + INVERSEDIRECTIONS l
                 \<noteq> lIndex * NUMVECTORS + INVERSEDIRECTIONS d" by simp
    qed
  qed
  also have "\<dots> = ?v"
    using assms
    by (simp add: wall_loop_Suc wall_direction_def Let_def split: prod.splits)
  finally show ?thesis .
qed

lemma collide_site_wall_entry:
  assumes "1 \<le> d" "d < NUMVECTORS" "HasBoundary L lIndex d"
    and "wall_estimate L lIndex d = ((uWall0, uWall1, uWall2), fNeq)"
  shows "FNew (collide_site Omega lIndex L) (lIndex * NUMVECTORS + INVERSEDIRECTIONS d)
           = CalculateFeq (density (CalculateDensityVelocityFEq (site_f L lIndex)))
               uWall0 uWall1 uWall2 (INVERSEDIRECTIONS d)
             + (1 + Omega) * fNeq"
  using wall_loop_entry [OF assms(1-3)] assms(4) by (simp add: collide_site_def)

lemma wall_loop_no_boundary:
  assumes "\<forall>l. 1 \<le> l \<and> l < n \<longrightarrow> \<not> HasBoundary L lIndex l"
  shows "wall_loop Omega L lIndex n fnew = fnew"
  using assms
proof (induction n)
  case 0
  then show ?case by (simp add: wall_loop_def)
next
  case (Suc n)
  show ?case
  proof (cases "1 \<le> n")
    case True
    with Suc.prems have "\<not> HasBoundary L lIndex n" by simp
    moreover have "wall_loop Omega L lIndex n fnew = fnew" using Suc by simp
    ultimately show ?thesis by (simp add: wall_loop_Suc [OF True] wall_direction_def)
  next
    case False
    then show ?thesis by (simp add: wall_loop_def)
  qed
qed

subsection \<open>Evaluating the concrete lattices\<close>

lemma sum_directions:
  "(\<Sum>i = 0..<15. g i) =
     g 0 + g 1 + g 2 + g 3 + g 4 + g 5 + g 6 + g 7 + g 8 + g 9 + g 10 + g 11 + g 12 + g 13
     + g (14::nat)"
  by (simp add: eval_nat_numeral sum.atLeast0_lessThan_Suc)

lemma wall_lattice_site0:
  "CalculateDensityVelocityFEq (site_f wall_lattice 0)
     = \<lparr>density = 1, v_x = 0, v_y = 0, v_z = 0, f_eq = CalculateFeq 1 0 0 0\<rparr>"
  unfolding CalculateDensityVelocityFEq_def NUMVECTORS_def sum_directions
  by (simp add: site_f_def wall_lattice_def NUMVECTORS_def CX_def CY_def CZ_def Let_def)

lemma wall_lattice_site1:
  "CalculateDensityVelocityFEq (site_f wall_lattice 1)
     = \<lparr>density = 1, v_x = 0, v_y = 0, v_z = 0, f_eq = CalculateFeq 1 0 0 0\<rparr>"
  unfolding CalculateDensityVelocityFEq_def NUMVECTORS_def sum_directions
  by (simp add: site_f_def wall_lattice_def NUMVECTORS_def CX_def CY_def CZ_def Let_def)

lemma wall_lattice_far: "GetStreamedIndex wall_lattice 0 2 div NUMVECTORS = 1"
  by (simp add: wall_lattice_def NUMVECTORS_def)

lemma rest_equilibrium: "CalculateFeq rho 0 0 0 i = weight i * rho"
  by (simp add: CalculateFeq_def)

lemma wall_lattice_estimate: "wall_estimate wall_lattice 0 1 = ((0, 0, 0), - (1 / 9))"
proof -
  have inv: "INVERSEDIRECTIONS 1 = 2" by (simp add: INVERSEDIRECTIONS_def)
  show ?thesis
    unfolding wall_estimate_def Let_def inv site_f_neq_def wall_lattice_far
      wall_lattice_site0 wall_lattice_site1
    by (simp add: wall_lattice_def NUMVECTORS_def site_f_def rest_equilibrium weight_def)
qed

lemma shear_lattice_site0:
  "CalculateDensityVelocityFEq (site_f shear_lattice 0)
     = \<lparr>density = 2, v_x = 1 / 2, v_y = 0, v_z = 0, f_eq = CalculateFeq 2 (1 / 2) 0 0\<rparr>"
  unfolding CalculateDensityVelocityFEq_def NUMVECTORS_def sum_directions
  by (simp add: site_f_def shear_lattice_def wall_lattice_def NUMVECTORS_def CX_def CY_def
        CZ_def Let_def)

lemma shear_lattice_site1:
  "CalculateDensityVelocityFEq (site_f shear_lattice 1)
     = \<lparr>density = 3 / 2, v_x = 1 / 3, v_y = 0, v_z = 0, f_eq = CalculateFeq (3 / 2) (1 / 3) 0 0\<rparr>"
  unfolding CalculateDensityVelocityFEq_def NUMVECTORS_def sum_directions
  by (simp add: site_f_def shear_lattice_def wall_lattice_def NUMVECTORS_def CX_def CY_def
        CZ_def Let_def)

lemma shear_lattice_far: "GetStreamedIndex shear_lattice 0 2 div NUMVECTORS = 1"
  by (simp add: shear_lattice_def wall_lattice_def NUMVECTORS_def)

lemma shear_lattice_estimate1:
  "wall_estimate shear_lattice 0 1 = ((- (11 / 36), 0, 0), - (1 / 18))"
proof -
  have inv: "INVERSEDIRECTIONS 1 = 2" by (simp add: INVERSEDIRECTIONS_def)
  show ?thesis
    unfolding wall_estimate_def Let_def inv site_f_neq_def shear_lattice_far
      shear_lattice_site0 shear_lattice_site1
    by (simp add: shear_lattice_def wall_lattice_def NUMVECTORS_def site_f_def CalculateFeq_def
          weight_def CX_def CY_def CZ_def)
qed

lemma shear_lattice_estimate3:
  "wall_estimate shear_lattice 0 3 = ((- (1 / 6), 0, 0), - (5 / 36))"
proof -
  have inv: "INVERSEDIRECTIONS 3 = 4" by (simp add: INVERSEDIRECTIONS_def)
  show ?thesis
    unfolding wall_estimate_def Let_def inv site_f_neq_def shear_lattice_site0
    by (simp add: shear_lattice_def wall_lattice_def NUMVECTORS_def site_f_def CalculateFeq_def
          weight_def CX_def CY_def CZ_def)
qed

subsection \<open>The claims about one site\<close>

text \<open>
  Claim C1. For every site and every direction \<open>d\<close>, the rest direction included, the
  pass of the streaming loop for \<open>d\<close> writes \<open>f[d] + \<omega> (f[d] - f_eq[d])\<close> into the
  streamed-to entry of the next buffer, with \<open>f\<close> the site's current distributions and
  \<open>f_eq\<close> the equilibrium computed from them. The entry still holds that value when the
  site has been processed, unless a later direction of the site streams to the same entry
  or the wall loop fills it.
\<close>

theorem C1_bulk_collision_streaming:
  assumes "d < NUMVECTORS"
  shows "stream_loop Omega L lIndex (Suc d) fnew (GetStreamedIndex L lIndex d)
           = site_f L lIndex d
             + Omega * (site_f L lIndex d - f_eq (CalculateDensityVelocityFEq (site_f L lIndex)) d)
       \<and> ((\<forall>d'. d < d' \<and> d' < NUMVECTORS
              \<longrightarrow> GetStreamedIndex L lIndex d' \<noteq> GetStreamedIndex L lIndex d)
            \<and> (\<forall>l. 1 \<le> l \<and> l < NUMVECTORS \<and> HasBoundary L lIndex l
              \<longrightarrow> lIndex * NUMVECTORS + INVERSEDIRECTIONS l \<noteq> GetStreamedIndex L lIndex d)
           \<longrightarrow> FNew (collide_site Omega lIndex L) (GetStreamedIndex L lIndex d)
                 = site_f L lIndex d
                   + Omega * (site_f L lIndex d
                              - f_eq (CalculateDensityVelocityFEq (site_f L lIndex)) d))"
proof (intro conjI impI)
  show "stream_loop Omega L lIndex (Suc d) fnew (GetStreamedIndex L lIndex d)
           = site_f L lIndex d
             + Omega * (site_f L lIndex d - f_eq (CalculateDensityVelocityFEq (site_f L lIndex)) d)"
    by (simp add: stream_loop_Suc stream_direction_def Let_def)
  assume free: "(\<forall>d'. d < d' \<and> d' < NUMVECTORS
              \<longrightarrow> GetStreamedIndex L lIndex d' \<noteq> GetStreamedIndex L lIndex d)
            \<and> (\<forall>l. 1 \<le> l \<and> l < NUMVECTORS \<and> HasBoundary L lIndex l
              \<longrightarrow> lIndex * NUMVECTORS + INVERSEDIRECTIONS l \<noteq> GetStreamedIndex L lIndex d)"
  let ?k = "GetStreamedIndex L lIndex d"
  let ?streamed = "stream_loop Omega L lIndex NUMVECTORS (FNew L)"
  have "wall_loop Omega L lIndex NUMVECTORS ?streamed ?k = wall_loop Omega L lIndex 1 ?streamed ?k"
    using free by (intro wall_loop_frame) (simp_all add: NUMVECTORS_def)
  then have "FNew (collide_site Omega lIndex L) ?k = ?streamed ?k"
    by (simp add: collide_site_def wall_loop_def)
  also have "\<dots> = site_f L lIndex d
                   + Omega * (site_f L lIndex d
                              - f_eq (CalculateDensityVelocityFEq (site_f L lIndex)) d)"
    using assms free by (intro stream_loop_entry) simp_all
  finally show "FNew (collide_site Omega lIndex L) ?k
                 = site_f L lIndex d
                   + Omega * (site_f L lIndex d
                              - f_eq (CalculateDensityVelocityFEq (site_f L lIndex)) d)" .
qed

theorem C1_bulk_collision_streaming_witness:
  "stream_loop (- (1 / 2)) shear_lattice 0 (Suc 1) (FNew shear_lattice)
     (GetStreamedIndex shear_lattice 0 1) = 31 / 36
   \<and> FNew (collide_site (- (1 / 2)) 0 shear_lattice) (GetStreamedIndex shear_lattice 0 1)
       = 31 / 36"
proof -
  have d: "(1::nat) < NUMVECTORS" by (simp add: NUMVECTORS_def)
  have later: "\<forall>d'. 1 < d' \<and> d' < NUMVECTORS
      \<longrightarrow> GetStreamedIndex shear_lattice 0 d' \<noteq> GetStreamedIndex shear_lattice 0 1"
    by (simp add: shear_lattice_def wall_lattice_def)
  have walls: "\<forall>l. 1 \<le> l \<and> l < NUMVECTORS \<and> HasBoundary shear_lattice 0 l
      \<longrightarrow> 0 * NUMVECTORS + INVERSEDIRECTIONS l \<noteq> GetStreamedIndex shear_lattice 0 1"
    by (auto simp: shear_lattice_def wall_lattice_def INVERSEDIRECTIONS_def)
  have val: "site_f shear_lattice 0 1
      + - (1 / 2) * (site_f shear_lattice 0 1
                     - f_eq (CalculateDensityVelocityFEq (site_f shear_lattice 0)) 1) = 31 / 36"
    unfolding shear_lattice_site0
    by (simp add: site_f_def shear_lattice_def wall_lattice_def NUMVECTORS_def CalculateFeq_def
          weight_def CX_def CY_def CZ_def)
  from C1_bulk_collision_streaming [OF d, of "- (1 / 2)" shear_lattice 0 "FNew shear_lattice"]
    later walls
  show ?thesis unfolding val by blast
qed

text \<open>
  Claim C2. For every site and every direction \<open>d\<close> with a wall (the wall loop runs over
  the directions 1 to 14), once the site has been processed its own entry of the next buffer
  at the inverse direction holds \<open>fEq[inverse d] + (1 + \<omega>) fNeq\<close>, where \<open>fEq\<close> is the
  equilibrium at the site's own density and the wall velocity, and the wall velocity and
  \<open>fNeq\<close> are the estimate of lines 64 to 113, interpolated or not.
\<close>

theorem C2_wall_entry:
  assumes "1 \<le> d" "d < NUMVECTORS" "HasBoundary L lIndex d"
    and "wall_estimate L lIndex d = ((uWall0, uWall1, uWall2), fNeq)"
  shows "FNew (collide_site Omega lIndex L) (lIndex * NUMVECTORS + INVERSEDIRECTIONS d)
           = CalculateFeq (density (CalculateDensityVelocityFEq (site_f L lIndex)))
               uWall0 uWall1 uWall2 (INVERSEDIRECTIONS d)
             + (1 + Omega) * fNeq"
  using assms by (rule collide_site_wall_entry)

theorem C2_wall_entry_witness:
  "FNew (collide_site (- (1 / 2)) 0 shear_lattice) (0 * NUMVECTORS + INVERSEDIRECTIONS 1)
     = 895 / 1944"
proof -
  have d: "(1::nat) \<le> 1" "(1::nat) < NUMVECTORS" "HasBoundary shear_lattice 0 1"
    by (simp_all add: NUMVECTORS_def shear_lattice_def wall_lattice_def)
  have val: "CalculateFeq (density (CalculateDensityVelocityFEq (site_f shear_lattice 0)))
               (- (11 / 36)) 0 0 (INVERSEDIRECTIONS 1) + (1 + - (1 / 2)) * - (1 / 18)
             = 895 / 1944"
    unfolding shear_lattice_site0
    by (simp add: INVERSEDIRECTIONS_def CalculateFeq_def weight_def CX_def CY_def CZ_def)
  from C2_wall_entry [OF d shear_lattice_estimate1, of "- (1 / 2)"]
  show ?thesis unfolding val .
qed

text \<open>
  Claim C3. The interpolation is entered exactly when \<open>\<delta> < 0.75\<close>, a strict comparison.
  There, when the site has no wall in the inverse direction, the wall velocity and the
  non-equilibrium part are blended with those of the next site out:
  \<open>uWall \<leftarrow> \<delta> uWall + (1 - \<delta>)(\<delta> - 1)/(1 + \<delta>) farVelocity\<close> on each axis and
  \<open>fNeq \<leftarrow> \<delta> fNeq + (1 - \<delta>)(farCurrent[inverse d] - farEquilibrium[inverse d])\<close>.
  When \<open>\<delta> \<ge> 0.75\<close> the values \<open>(1 - 1/\<delta>) v\<close> and \<open>f_neq[inverse d]\<close> are used unchanged.
\<close>

theorem C3_interpolation_branch:
  fixes L :: LocalLatticeData and lIndex d :: nat
  defines "delta \<equiv> GetCutDistance L lIndex d"
    and "away \<equiv> INVERSEDIRECTIONS d"
    and "h \<equiv> CalculateDensityVelocityFEq (site_f L lIndex)"
  defines "far \<equiv> GetStreamedIndex L lIndex away div NUMVECTORS"
  defines "hfar \<equiv> CalculateDensityVelocityFEq (site_f L far)"
  shows "(delta < 3 / 4 \<and> \<not> HasBoundary L lIndex away \<longrightarrow>
            wall_estimate L lIndex d =
              ((delta * ((1 - 1 / delta) * v_x h) + (1 - delta) * (delta - 1) / (1 + delta) * v_x hfar,
                delta * ((1 - 1 / delta) * v_y h) + (1 - delta) * (delta - 1) / (1 + delta) * v_y hfar,
                delta * ((1 - 1 / delta) * v_z h) + (1 - delta) * (delta - 1) / (1 + delta) * v_z hfar),
               delta * site_f_neq L lIndex away
                 + (1 - delta) * (site_f L far away - f_eq hfar away)))
       \<and> (\<not> delta < 3 / 4 \<longrightarrow>
            wall_estimate L lIndex d =
              (((1 - 1 / delta) * v_x h, (1 - 1 / delta) * v_y h, (1 - 1 / delta) * v_z h),
               site_f_neq L lIndex away))"
  unfolding delta_def away_def h_def far_def hfar_def
  by (simp add: wall_estimate_def Let_def site_f_def)

theorem C3_interpolation_branch_witness:
  "wall_estimate shear_lattice 0 1 = ((- (11 / 36), 0, 0), - (1 / 18))
   \<and> wall_estimate shear_lattice 0 3 = ((- (1 / 6), 0, 0), - (5 / 36))"
proof -
  have inv: "INVERSEDIRECTIONS 1 = 2" "INVERSEDIRECTIONS 3 = 4"
    by (simp_all add: INVERSEDIRECTIONS_def)
  have geo: "GetCutDistance shear_lattice 0 1 = 1 / 2" "\<not> HasBoundary shear_lattice 0 2"
    "GetCutDistance shear_lattice 0 3 = 3 / 4"
    by (simp_all add: shear_lattice_def wall_lattice_def)
  have near: "site_f_neq shear_lattice 0 2 = - (1 / 18)" "site_f_neq shear_lattice 0 4 = - (5 / 36)"
    unfolding site_f_neq_def shear_lattice_site0
    by (simp_all add: site_f_def shear_lattice_def wall_lattice_def NUMVECTORS_def
          CalculateFeq_def weight_def CX_def CY_def CZ_def)
  have far: "site_f shear_lattice 1 2
               - f_eq (CalculateDensityVelocityFEq (site_f shear_lattice 1)) 2 = - (1 / 18)"
    unfolding shear_lattice_site1
    by (simp add: site_f_def shear_lattice_def wall_lattice_def NUMVECTORS_def
          CalculateFeq_def weight_def CX_def CY_def CZ_def)
  have vel: "v_x (CalculateDensityVelocityFEq (site_f shear_lattice 0)) = 1 / 2"
    "v_y (CalculateDensityVelocityFEq (site_f shear_lattice 0)) = 0"
    "v_z (CalculateDensityVelocityFEq (site_f shear_lattice 0)) = 0"
    "v_x (CalculateDensityVelocityFEq (site_f shear_lattice 1)) = 1 / 3"
    "v_y (CalculateDensityVelocityFEq (site_f shear_lattice 1)) = 0"
    "v_z (CalculateDensityVelocityFEq (site_f shear_lattice 1)) = 0"
    unfolding shear_lattice_site0 shear_lattice_site1 by simp_all
  have below: "GetCutDistance shear_lattice 0 1 < 3 / 4
      \<and> \<not> HasBoundary shear_lattice 0 (INVERSEDIRECTIONS 1)"
    unfolding inv geo using geo(2) by simp
  have above: "\<not> GetCutDistance shear_lattice 0 3 < 3 / 4"
    unfolding geo by simp
  note blended = C3_interpolation_branch [of shear_lattice 0 1, THEN conjunct1, rule_format,
      OF below]
  note unchanged = C3_interpolation_branch [of shear_lattice 0 3, THEN conjunct2, rule_format,
      OF above]
  have "wall_estimate shear_lattice 0 1 = ((- (11 / 36), 0, 0), - (1 / 18))"
    unfolding blended inv shear_lattice_far geo near far vel by simp
  moreover have "wall_estimate shear_lattice 0 3 = ((- (1 / 6), 0, 0), - (5 / 36))"
    unfolding unchanged inv geo near vel by simp
  ultimately show ?thesis by simp
qed

text \<open>
  Claim C4. When \<open>\<delta> < 0.75\<close> and the site has a wall in the inverse direction too, so
  that there is no site further out to interpolate from, the wall velocity and \<open>fNeq\<close> are
  set to zero, and the value stored at the inverse direction is the equilibrium at the
  site's density and zero velocity.
\<close>

theorem C4_zero_fallback:
  assumes "1 \<le> d" "d < NUMVECTORS" "HasBoundary L lIndex d"
    and "GetCutDistance L lIndex d < 3 / 4"
    and "HasBoundary L lIndex (INVERSEDIRECTIONS d)"
  shows "wall_estimate L lIndex d = ((0, 0, 0), 0)
       \<and> FNew (collide_site Omega lIndex L) (lIndex * NUMVECTORS + INVERSEDIRECTIONS d)
           = CalculateFeq (density (CalculateDensityVelocityFEq (site_f L lIndex))) 0 0 0
               (INVERSEDIRECTIONS d)"
proof -
  have est: "wall_estimate L lIndex d = ((0, 0, 0), 0)"
    using assms(4,5) by (simp add: wall_estimate_def Let_def)
  show ?thesis
    using est collide_site_wall_entry [OF assms(1-3) est, of Omega] by simp
qed

theorem C4_zero_fallback_witness:
  "wall_estimate wall_lattice 1 5 = ((0, 0, 0), 0)
   \<and> FNew (collide_site (- (1 / 2)) 1 wall_lattice) (1 * NUMVECTORS + INVERSEDIRECTIONS 5)
       = 1 / 9"
proof -
  have inv: "INVERSEDIRECTIONS 5 = 6" by (simp add: INVERSEDIRECTIONS_def)
  have d: "(1::nat) \<le> 5" "(5::nat) < NUMVECTORS" "HasBoundary wall_lattice 1 5"
    "GetCutDistance wall_lattice 1 5 < 3 / 4" "HasBoundary wall_lattice 1 (INVERSEDIRECTIONS 5)"
    unfolding inv by (simp_all add: NUMVECTORS_def wall_lattice_def)
  have val: "CalculateFeq (density (CalculateDensityVelocityFEq (site_f wall_lattice 1))) 0 0 0
               (INVERSEDIRECTIONS 5) = 1 / 9"
    unfolding wall_lattice_site1 inv by (simp add: rest_equilibrium weight_def)
  from C4_zero_fallback [OF d, of "- (1 / 2)"]
  show ?thesis unfolding val .
qed

text \<open>
  Claim C7, as stated: with \<open>\<delta> = 0.5\<close>, the site at rest and the next site out at rest,
  the stored value is the plain equilibrium at the site's density. It is not: the two
  non-equilibrium parts enter with equal weights \<open>\<delta> = 1 - \<delta> = 1/2\<close> and need not
  vanish at rest. On \<open>wall_lattice\<close>, site 0 and direction 1, with \<open>\<omega> = -1/2\<close>, the value
  stored is 1/18 and the equilibrium 1/9.
\<close>

theorem C7_counterexample:
  "HasBoundary wall_lattice 0 1
   \<and> GetCutDistance wall_lattice 0 1 = 1 / 2
   \<and> \<not> HasBoundary wall_lattice 0 (INVERSEDIRECTIONS 1)
   \<and> v_x (CalculateDensityVelocityFEq (site_f wall_lattice 0)) = 0
   \<and> v_y (CalculateDensityVelocityFEq (site_f wall_lattice 0)) = 0
   \<and> v_z (CalculateDensityVelocityFEq (site_f wall_lattice 0)) = 0
   \<and> GetStreamedIndex wall_lattice 0 (INVERSEDIRECTIONS 1) div NUMVECTORS = 1
   \<and> v_x (CalculateDensityVelocityFEq (site_f wall_lattice 1)) = 0
   \<and> v_y (CalculateDensityVelocityFEq (site_f wall_lattice 1)) = 0
   \<and> v_z (CalculateDensityVelocityFEq (site_f wall_lattice 1)) = 0
   \<and> FNew (collide_site (- (1 / 2)) 0 wall_lattice) (0 * NUMVECTORS + INVERSEDIRECTIONS 1)
       = 1 / 18
   \<and> CalculateFeq (density (CalculateDensityVelocityFEq (site_f wall_lattice 0))) 0 0 0
       (INVERSEDIRECTIONS 1) = 1 / 9
   \<and> FNew (collide_site (- (1 / 2)) 0 wall_lattice) (0 * NUMVECTORS + INVERSEDIRECTIONS 1)
       \<noteq> CalculateFeq (density (CalculateDensityVelocityFEq (site_f wall_lattice 0))) 0 0 0
           (INVERSEDIRECTIONS 1)"
proof -
  have inv: "INVERSEDIRECTIONS 1 = 2" by (simp add: INVERSEDIRECTIONS_def)
  have d: "(1::nat) \<le> 1" "(1::nat) < NUMVECTORS" "HasBoundary wall_lattice 0 1"
    by (simp_all add: NUMVECTORS_def wall_lattice_def)
  have geo: "GetCutDistance wall_lattice 0 1 = 1 / 2"
    "\<not> HasBoundary wall_lattice 0 (INVERSEDIRECTIONS 1)"
    unfolding inv by (simp_all add: wall_lattice_def)
  have rest0: "v_x (CalculateDensityVelocityFEq (site_f wall_lattice 0)) = 0"
    "v_y (CalculateDensityVelocityFEq (site_f wall_lattice 0)) = 0"
    "v_z (CalculateDensityVelocityFEq (site_f wall_lattice 0)) = 0"
    unfolding wall_lattice_site0 by simp_all
  have far: "GetStreamedIndex wall_lattice 0 (INVERSEDIRECTIONS 1) div NUMVECTORS = 1"
    unfolding inv by (rule wall_lattice_far)
  have rest1: "v_x (CalculateDensityVelocityFEq (site_f wall_lattice 1)) = 0"
    "v_y (CalculateDensityVelocityFEq (site_f wall_lattice 1)) = 0"
    "v_z (CalculateDensityVelocityFEq (site_f wall_lattice 1)) = 0"
    unfolding wall_lattice_site1 by simp_all
  have eq: "CalculateFeq (density (CalculateDensityVelocityFEq (site_f wall_lattice 0))) 0 0 0
       (INVERSEDIRECTIONS 1) = 1 / 9"
    unfolding wall_lattice_site0 inv by (simp add: rest_equilibrium weight_def)
  have stored: "FNew (collide_site (- (1 / 2)) 0 wall_lattice)
                  (0 * NUMVECTORS + INVERSEDIRECTIONS 1) = 1 / 18"
    using collide_site_wall_entry [OF d wall_lattice_estimate, of "- (1 / 2)"]
    unfolding eq by simp
  have differ: "FNew (collide_site (- (1 / 2)) 0 wall_lattice)
                  (0 * NUMVECTORS + INVERSEDIRECTIONS 1)
       \<noteq> CalculateFeq (density (CalculateDensityVelocityFEq (site_f wall_lattice 0))) 0 0 0
           (INVERSEDIRECTIONS 1)"
    unfolding stored eq by simp
  show ?thesis
    by (intro conjI) (fact d(3) geo rest0 far rest1 stored eq differ)+
qed

text \<open>
  Claim C7, amended: under the same conditions the wall velocity is zero and the stored
  value is the equilibrium at the site's density and zero velocity plus \<open>(1 + \<omega>)\<close> times
  the mean of the site's and the next site's non-equilibrium parts in the inverse direction.
\<close>

theorem C7_half_way_wall_at_rest:
  fixes L :: LocalLatticeData and lIndex d :: nat
  defines "away \<equiv> INVERSEDIRECTIONS d"
    and "h \<equiv> CalculateDensityVelocityFEq (site_f L lIndex)"
  defines "far \<equiv> GetStreamedIndex L lIndex away div NUMVECTORS"
  defines "hfar \<equiv> CalculateDensityVelocityFEq (site_f L far)"
  assumes d: "1 \<le> d" "d < NUMVECTORS" "HasBoundary L lIndex d"
    and cut: "GetCutDistance L lIndex d = 1 / 2"
    and out: "\<not> HasBoundary L lIndex away"
    and rest: "v_x h = 0" "v_y h = 0" "v_z h = 0"
    and far_rest: "v_x hfar = 0" "v_y hfar = 0" "v_z hfar = 0"
  shows "fst (wall_estimate L lIndex d) = (0, 0, 0)
       \<and> FNew (collide_site Omega lIndex L) (lIndex * NUMVECTORS + away)
           = CalculateFeq (density h) 0 0 0 away
             + (1 + Omega) * (1 / 2 * site_f_neq L lIndex away
                              + 1 / 2 * (site_f L far away - f_eq hfar away))"
proof -
  have est: "wall_estimate L lIndex d =
      ((0, 0, 0), 1 / 2 * site_f_neq L lIndex away
                  + 1 / 2 * (site_f L far away - f_eq hfar away))"
    using out rest far_rest
    unfolding away_def h_def far_def hfar_def wall_estimate_def Let_def cut
    by (simp add: site_f_def)
  show ?thesis
    using est collide_site_wall_entry [OF d est, of Omega]
    unfolding away_def h_def by simp
qed

theorem C7_half_way_wall_at_rest_witness:
  "fst (wall_estimate wall_lattice 0 1) = (0, 0, 0)
   \<and> FNew (collide_site (- (1 / 2)) 0 wall_lattice) (0 * NUMVECTORS + INVERSEDIRECTIONS 1)
       = 1 / 18"
proof -
  have inv: "INVERSEDIRECTIONS 1 = 2" by (simp add: INVERSEDIRECTIONS_def)
  have d: "(1::nat) \<le> 1" "(1::nat) < NUMVECTORS" "HasBoundary wall_lattice 0 1"
    "GetCutDistance wall_lattice 0 1 = 1 / 2"
    "\<not> HasBoundary wall_lattice 0 (INVERSEDIRECTIONS 1)"
    unfolding inv by (simp_all add: NUMVECTORS_def wall_lattice_def)
  have rest: "v_x (CalculateDensityVelocityFEq (site_f wall_lattice 0)) = 0"
    "v_y (CalculateDensityVelocityFEq (site_f wall_lattice 0)) = 0"
    "v_z (CalculateDensityVelocityFEq (site_f wall_lattice 0)) = 0"
    unfolding wall_lattice_site0 by simp_all
  have far_rest:
    "v_x (CalculateDensityVelocityFEq (site_f wall_lattice
       (GetStreamedIndex wall_lattice 0 (INVERSEDIRECTIONS 1) div NUMVECTORS))) = 0"
    "v_y (CalculateDensityVelocityFEq (site_f wall_lattice
       (GetStreamedIndex wall_lattice 0 (INVERSEDIRECTIONS 1) div NUMVECTORS))) = 0"
    "v_z (CalculateDensityVelocityFEq (site_f wall_lattice
       (GetStreamedIndex wall_lattice 0 (INVERSEDIRECTIONS 1) div NUMVECTORS))) = 0"
    unfolding inv wall_lattice_far wall_lattice_site1 by simp_all
  have val: "CalculateFeq (density (CalculateDensityVelocityFEq (site_f wall_lattice 0))) 0 0 0
               (INVERSEDIRECTIONS 1)
             + (1 + - (1 / 2))
               * (1 / 2 * site_f_neq wall_lattice 0 (INVERSEDIRECTIONS 1)
                  + 1 / 2 * (site_f wall_lattice
                       (GetStreamedIndex wall_lattice 0 (INVERSEDIRECTIONS 1) div NUMVECTORS)
                       (INVERSEDIRECTIONS 1)
                     - f_eq (CalculateDensityVelocityFEq (site_f wall_lattice
                         (GetStreamedIndex wall_lattice 0 (INVERSEDIRECTIONS 1) div NUMVECTORS)))
                         (INVERSEDIRECTIONS 1)))
             = 1 / 18"
    unfolding inv wall_lattice_far site_f_neq_def wall_lattice_site0 wall_lattice_site1
    by (simp add: rest_equilibrium weight_def site_f_def wall_lattice_def NUMVECTORS_def)
  from C7_half_way_wall_at_rest [OF d(1-3) d(4) d(5) rest far_rest, of "- (1 / 2)"]
  show ?thesis unfolding val .
qed

subsection \<open>The moments, and a pass over a closed lattice\<close>

text \<open>
  Claim C5. The calculator returns, for any distribution vector, a density equal to the
  sum of the entries and a velocity equal to the sum of the direction vectors weighted by
  the entries, divided by that density. The calculator is the one written from the spec;
  the theorem says that this definition is the one the claim describes.
\<close>

theorem C5_density_and_velocity:
  "density (CalculateDensityVelocityFEq f) = (\<Sum>i = 0..<NUMVECTORS. f i)
   \<and> v_x (CalculateDensityVelocityFEq f)
       = (\<Sum>i = 0..<NUMVECTORS. f i * CX i) / density (CalculateDensityVelocityFEq f)
   \<and> v_y (CalculateDensityVelocityFEq f)
       = (\<Sum>i = 0..<NUMVECTORS. f i * CY i) / density (CalculateDensityVelocityFEq f)
   \<and> v_z (CalculateDensityVelocityFEq f)
       = (\<Sum>i = 0..<NUMVECTORS. f i * CZ i) / density (CalculateDensityVelocityFEq f)"
  by (simp add: CalculateDensityVelocityFEq_def Let_def)

theorem C5_density_and_velocity_witness:
  "density (CalculateDensityVelocityFEq scenario_f) = 12
   \<and> v_x (CalculateDensityVelocityFEq scenario_f) = - (1 / 24)
   \<and> v_y (CalculateDensityVelocityFEq scenario_f) = - (1 / 120)
   \<and> v_z (CalculateDensityVelocityFEq scenario_f) = - (1 / 120)"
proof -
  have rho: "(\<Sum>i = 0..<NUMVECTORS. scenario_f i) = 12"
    unfolding NUMVECTORS_def sum_directions by (simp add: scenario_f_def)
  have mx: "(\<Sum>i = 0..<NUMVECTORS. scenario_f i * CX i) = - (1 / 2)"
    unfolding NUMVECTORS_def sum_directions by (simp add: scenario_f_def CX_def)
  have my: "(\<Sum>i = 0..<NUMVECTORS. scenario_f i * CY i) = - (1 / 10)"
    unfolding NUMVECTORS_def sum_directions by (simp add: scenario_f_def CY_def)
  have mz: "(\<Sum>i = 0..<NUMVECTORS. scenario_f i * CZ i) = - (1 / 10)"
    unfolding NUMVECTORS_def sum_directions by (simp add: scenario_f_def CZ_def)
  from C5_density_and_velocity [of scenario_f]
  show ?thesis unfolding rho mx my mz by simp
qed

text \<open>
  The reader of the calculator's result in lb/io.cc (lines 670 to 672 and 991 to 993)
  divides the three components by the density once more before converting them to
  physical units and writing them out as the velocity field. With the calculator read as
  the spec has it, what is written is the first moment over the square of the density.
\<close>

lemma WriteConfig_velocity_of_model:
  "WriteConfig_velocity convert f =
     (convert ((\<Sum>i = 0..<NUMVECTORS. f i * CX i) / (\<Sum>i = 0..<NUMVECTORS. f i)
               / (\<Sum>i = 0..<NUMVECTORS. f i)),
      convert ((\<Sum>i = 0..<NUMVECTORS. f i * CY i) / (\<Sum>i = 0..<NUMVECTORS. f i)
               / (\<Sum>i = 0..<NUMVECTORS. f i)),
      convert ((\<Sum>i = 0..<NUMVECTORS. f i * CZ i) / (\<Sum>i = 0..<NUMVECTORS. f i)
               / (\<Sum>i = 0..<NUMVECTORS. f i)))"
  by (simp add: WriteConfig_velocity_def CalculateDensityVelocityFEq_def Let_def)

lemma sum_CalculateFeq:
  "(\<Sum>i = 0..<NUMVECTORS. CalculateFeq rho ux uy uz i) = rho"
  unfolding NUMVECTORS_def sum_directions
  by (simp add: CalculateFeq_def weight_def CX_def CY_def CZ_def Let_def) (simp add: field_simps)

text \<open>The collision moves mass between the directions of a site and keeps their sum.\<close>

lemma sum_post_collision:
  "(\<Sum>d = 0..<NUMVECTORS. site_f L i d
        + Omega * (site_f L i d - f_eq (CalculateDensityVelocityFEq (site_f L i)) d))
     = (\<Sum>d = 0..<NUMVECTORS. site_f L i d)"
proof -
  have eq: "(\<Sum>d = 0..<NUMVECTORS. f_eq (CalculateDensityVelocityFEq (site_f L i)) d)
          = (\<Sum>d = 0..<NUMVECTORS. site_f L i d)"
    by (simp add: CalculateDensityVelocityFEq_def Let_def sum_CalculateFeq)
  have "(\<Sum>d = 0..<NUMVECTORS. site_f L i d
        + Omega * (site_f L i d - f_eq (CalculateDensityVelocityFEq (site_f L i)) d))
      = (\<Sum>d = 0..<NUMVECTORS. site_f L i d)
        + Omega * ((\<Sum>d = 0..<NUMVECTORS. site_f L i d)
                   - (\<Sum>d = 0..<NUMVECTORS. f_eq (CalculateDensityVelocityFEq (site_f L i)) d))"
    by (simp add: sum.distrib sum_subtractf sum_distrib_left [symmetric])
  then show ?thesis by (simp add: eq)
qed

lemma DoCollisionsInternal_Suc:
  "DoCollisionsInternal a (Suc n) Omega L
     = collide_site Omega (a + n) (DoCollisionsInternal a n Omega L)"
  by (simp add: DoCollisionsInternal_def)

lemma collide_site_geometry:
  "FOld (collide_site Omega i L) = FOld L"
  "GetStreamedIndex (collide_site Omega i L) = GetStreamedIndex L"
  "HasBoundary (collide_site Omega i L) = HasBoundary L"
  "GetCutDistance (collide_site Omega i L) = GetCutDistance L"
  by (simp_all add: collide_site_def)

text \<open>A pass reads \<open>FOld\<close> and the geometry and writes \<open>FNew\<close> only.\<close>

lemma DoCollisionsInternal_geometry:
  "FOld (DoCollisionsInternal a n Omega L) = FOld L
   \<and> GetStreamedIndex (DoCollisionsInternal a n Omega L) = GetStreamedIndex L
   \<and> HasBoundary (DoCollisionsInternal a n Omega L) = HasBoundary L
   \<and> GetCutDistance (DoCollisionsInternal a n Omega L) = GetCutDistance L"
proof (induction n)
  case 0
  show ?case by (simp add: DoCollisionsInternal_def)
next
  case (Suc n)
  then show ?case by (simp add: DoCollisionsInternal_Suc collide_site_geometry)
qed

lemma stream_loop_cong:
  assumes "FOld L' = FOld L" "GetStreamedIndex L' = GetStreamedIndex L"
  shows "stream_loop Omega L' i n F = stream_loop Omega L i n F"
proof -
  have sf: "site_f L' i = site_f L i" by (rule ext) (simp add: site_f_def assms)
  have "stream_direction Omega L' i = stream_direction Omega L i"
    by (intro ext) (simp add: stream_direction_def assms sf)
  then show ?thesis by (simp add: stream_loop_def)
qed

text \<open>
  Where no two (site, direction) pairs stream to the same entry and no site has a wall,
  the pass over the sites \<open>0\<close> to \<open>n - 1\<close> leaves in each streamed-to entry the
  post-collision value of its one source.
\<close>

lemma DoCollisionsInternal_entry:
  assumes inj: "\<forall>i<N. \<forall>d<NUMVECTORS. \<forall>i'<N. \<forall>d'<NUMVECTORS.
            GetStreamedIndex L i d = GetStreamedIndex L i' d' \<longrightarrow> i = i' \<and> d = d'"
    and nb: "\<forall>i<N. \<forall>d<NUMVECTORS. \<not> HasBoundary L i d"
    and "n \<le> N" "i < n" "d < NUMVECTORS"
  shows "FNew (DoCollisionsInternal 0 n Omega L) (GetStreamedIndex L i d)
           = site_f L i d
             + Omega * (site_f L i d - f_eq (CalculateDensityVelocityFEq (site_f L i)) d)"
  using assms(3,4)
proof (induction n)
  case 0
  then show ?case by simp
next
  case (Suc n)
  let ?L' = "DoCollisionsInternal 0 n Omega L"
  note geo = DoCollisionsInternal_geometry [of 0 n Omega L]
  from Suc.prems have nN: "n < N" by simp
  have "\<forall>l. 1 \<le> l \<and> l < NUMVECTORS \<longrightarrow> \<not> HasBoundary ?L' n l"
    using nb nN geo by simp
  then have step: "FNew (collide_site Omega n ?L')
                     = stream_loop Omega L n NUMVECTORS (FNew ?L')"
    using geo stream_loop_cong [of ?L' L Omega n NUMVECTORS "FNew ?L'"]
    by (simp add: collide_site_def wall_loop_no_boundary)
  show ?case
  proof (cases "i = n")
    case True
    have "GetStreamedIndex L n d' \<noteq> GetStreamedIndex L n d" if "d < d'" "d' < NUMVECTORS" for d'
      using inj [rule_format, OF nN that(2) nN \<open>d < NUMVECTORS\<close>] that by auto
    then have "\<forall>d'. d < d' \<and> d' < NUMVECTORS
            \<longrightarrow> GetStreamedIndex L n d' \<noteq> GetStreamedIndex L n d" by simp
    then show ?thesis
      using True step stream_loop_entry [OF \<open>d < NUMVECTORS\<close>, of L n Omega "FNew ?L'"]
      by (simp add: DoCollisionsInternal_Suc)
  next
    case False
    with Suc.prems have lt: "i < n" by simp
    then have iN: "i < N" using nN by simp
    have "GetStreamedIndex L n d' \<noteq> GetStreamedIndex L i d" if "d' < NUMVECTORS" for d'
      using inj [rule_format, OF nN that iN \<open>d < NUMVECTORS\<close>] False by auto
    then have "\<forall>d'. 0 \<le> d' \<and> d' < NUMVECTORS
            \<longrightarrow> GetStreamedIndex L n d' \<noteq> GetStreamedIndex L i d" by simp
    then have "stream_loop Omega L n NUMVECTORS (FNew ?L') (GetStreamedIndex L i d)
                 = stream_loop Omega L n 0 (FNew ?L') (GetStreamedIndex L i d)"
      by (intro stream_loop_frame) simp_all
    then show ?thesis
      using step Suc.IH lt Suc.prems
      by (simp add: DoCollisionsInternal_Suc stream_loop_def)
  qed
qed

text \<open>
  An array of \<open>15 N\<close> entries summed by the entries that the pairs (site, direction) are
  sent to, when these are sent one to one into the array.
\<close>

lemma sum_by_slots:
  fixes g :: "nat \<Rightarrow> nat \<Rightarrow> nat" and F :: "nat \<Rightarrow> real"
  assumes inj: "\<forall>i<N. \<forall>d<NUMVECTORS. \<forall>i'<N. \<forall>d'<NUMVECTORS.
            g i d = g i' d' \<longrightarrow> i = i' \<and> d = d'"
    and range: "\<forall>i<N. \<forall>d<NUMVECTORS. g i d < N * NUMVECTORS"
  shows "(\<Sum>k = 0..<N * NUMVECTORS. F k) = (\<Sum>i = 0..<N. \<Sum>d = 0..<NUMVECTORS. F (g i d))"
proof -
  let ?A = "{0..<N} \<times> {0..<NUMVECTORS}"
  let ?h = "\<lambda>(i, d). g i d"
  have inj_h: "inj_on ?h ?A"
    using inj by (auto simp: inj_on_def)
  have sub: "?h ` ?A \<subseteq> {0..<N * NUMVECTORS}"
    using range by auto
  have "card (?h ` ?A) = card ?A" using inj_h by (rule card_image)
  also have "\<dots> = card {0..<N * NUMVECTORS}" by simp
  finally have img: "?h ` ?A = {0..<N * NUMVECTORS}"
    using sub by (intro card_subset_eq) simp_all
  have "(\<Sum>k = 0..<N * NUMVECTORS. F k) = (\<Sum>k \<in> ?h ` ?A. F k)" by (simp only: img)
  also have "\<dots> = (\<Sum>a \<in> ?A. F (?h a))"
    using inj_h by (simp add: sum.reindex)
  also have "\<dots> = (\<Sum>i = 0..<N. \<Sum>d = 0..<NUMVECTORS. F (g i d))"
    by (simp add: sum.cartesian_product case_prod_unfold)
  finally show ?thesis .
qed

lemma own_slots:
  "\<forall>i<N. \<forall>d<NUMVECTORS. \<forall>i'<N. \<forall>d'<NUMVECTORS.
      i * NUMVECTORS + d = i' * NUMVECTORS + d' \<longrightarrow> i = i' \<and> d = d'"
  "\<forall>i<N. \<forall>d<NUMVECTORS. i * NUMVECTORS + d < N * NUMVECTORS"
proof -
  show "\<forall>i<N. \<forall>d<NUMVECTORS. \<forall>i'<N. \<forall>d'<NUMVECTORS.
      i * NUMVECTORS + d = i' * NUMVECTORS + d' \<longrightarrow> i = i' \<and> d = d'"
  proof (intro allI impI)
    fix i d i' d'
    assume "i < N" "d < NUMVECTORS" "i' < N" "d' < NUMVECTORS"
      and eq: "i * NUMVECTORS + d = i' * NUMVECTORS + d'"
    have "(i * NUMVECTORS + d) div NUMVECTORS = (i' * NUMVECTORS + d') div NUMVECTORS"
      using eq by simp
    then have "i = i'"
      using \<open>d < NUMVECTORS\<close> \<open>d' < NUMVECTORS\<close> by simp
    with eq show "i = i' \<and> d = d'" by simp
  qed
  show "\<forall>i<N. \<forall>d<NUMVECTORS. i * NUMVECTORS + d < N * NUMVECTORS"
  proof (intro allI impI)
    fix i d assume "i < N" "d < NUMVECTORS"
    then have "i * NUMVECTORS + d < Suc i * NUMVECTORS" by simp
    also have "\<dots> \<le> N * NUMVECTORS" using \<open>i < N\<close> by (intro mult_le_mono1) simp
    finally show "i * NUMVECTORS + d < N * NUMVECTORS" .
  qed
qed

text \<open>
  Claim C6. On a closed lattice of \<open>N\<close> sites without walls, where every direction of
  every site streams to an entry of the lattice and no two stream to the same entry, one
  pass over all sites conserves mass: the next buffer summed over all sites and directions
  equals the current buffer summed likewise. The densities are taken non-zero, as the
  calculator expects of its caller; dividing by a zero density is where the reals stop
  describing the floating-point code.
\<close>

theorem C6_mass_conservation:
  assumes inj: "\<forall>i<N. \<forall>d<NUMVECTORS. \<forall>i'<N. \<forall>d'<NUMVECTORS.
            GetStreamedIndex L i d = GetStreamedIndex L i' d' \<longrightarrow> i = i' \<and> d = d'"
    and range: "\<forall>i<N. \<forall>d<NUMVECTORS. GetStreamedIndex L i d < N * NUMVECTORS"
    and nb: "\<forall>i<N. \<forall>d<NUMVECTORS. \<not> HasBoundary L i d"
    and rho: "\<forall>i<N. density (CalculateDensityVelocityFEq (site_f L i)) \<noteq> 0"
  shows "total N (FNew (DoCollisionsInternal 0 N Omega L)) = total N (FOld L)"
proof -
  let ?F = "FNew (DoCollisionsInternal 0 N Omega L)"
  have "total N ?F = (\<Sum>i = 0..<N. \<Sum>d = 0..<NUMVECTORS. ?F (GetStreamedIndex L i d))"
    unfolding total_def using inj range by (rule sum_by_slots)
  also have "\<dots> = (\<Sum>i = 0..<N. \<Sum>d = 0..<NUMVECTORS. site_f L i d
        + Omega * (site_f L i d - f_eq (CalculateDensityVelocityFEq (site_f L i)) d))"
    using DoCollisionsInternal_entry [OF inj nb le_refl, of _ _ Omega]
    by (intro sum.cong refl) simp
  also have "\<dots> = (\<Sum>i = 0..<N. \<Sum>d = 0..<NUMVECTORS. site_f L i d)"
    by (simp only: sum_post_collision)
  also have "\<dots> = (\<Sum>i = 0..<N. \<Sum>d = 0..<NUMVECTORS. FOld L (i * NUMVECTORS + d))"
    by (simp add: site_f_def)
  also have "\<dots> = total N (FOld L)"
    unfolding total_def using own_slots [of N] by (rule sum_by_slots [symmetric])
  finally show ?thesis .
qed

theorem C6_mass_conservation_witness:
  "total 2 (FNew (DoCollisionsInternal 0 2 (- (1 / 2)) closed_lattice)) = 30"
proof -
  have inj: "\<forall>i<2. \<forall>d<NUMVECTORS. \<forall>i'<2. \<forall>d'<NUMVECTORS.
      GetStreamedIndex closed_lattice i d = GetStreamedIndex closed_lattice i' d'
        \<longrightarrow> i = i' \<and> d = d'"
    by (auto simp: closed_lattice_def NUMVECTORS_def less_2_cases_iff split: if_splits)
  have range: "\<forall>i<2. \<forall>d<NUMVECTORS. GetStreamedIndex closed_lattice i d < 2 * NUMVECTORS"
    by (auto simp: closed_lattice_def NUMVECTORS_def less_2_cases_iff)
  have nb: "\<forall>i<2. \<forall>d<NUMVECTORS. \<not> HasBoundary closed_lattice i d"
    by (simp add: closed_lattice_def)
  have rho: "\<forall>i<2. density (CalculateDensityVelocityFEq (site_f closed_lattice i)) \<noteq> 0"
    by (simp add: CalculateDensityVelocityFEq_def Let_def site_f_def closed_lattice_def
          NUMVECTORS_def)
  have before: "total 2 (FOld closed_lattice) = 30"
    by (simp add: total_def closed_lattice_def NUMVECTORS_def)
  from C6_mass_conservation [OF inj range nb rho, of "- (1 / 2)"]
  show ?thesis unfolding before .
qed

section \<open>Properties of the colloid boundary conditions\<close>

lemma face_directions: "[1..<7] = [1, 2, 3, 4, 5, 6 :: nat]"
  by (simp add: eval_nat_numeral)

lemma concat_map_option:
  "concat (map (\<lambda>x. case f x of None \<Rightarrow> [] | Some d \<Rightarrow> [g x d]) xs)
     = map (\<lambda>x. g x (the (f x))) (filter (\<lambda>x. f x \<noteq> None) xs)"
  by (induction xs) (auto split: option.splits)

lemma thisDistance_None: "thisDistance raw = None \<longleftrightarrow> raw < 0"
  by (simp add: thisDistance_def)

lemma thisDistance_Some: "0 \<le> raw \<Longrightarrow> thisDistance raw = Some (min raw (1 / 2))"
  by (simp add: thisDistance_def min_def)

text \<open>
  For a coordinate from \<open>-1/2\<close> upwards, adding a half and dropping the fraction gives
  the nearest integer, halves going up.
\<close>

lemma site_t_nearest:
  assumes "- (1 / 2) \<le> x"
  shows "site_t (0.5 + x) = round x"
  using assms by (simp add: site_t_def round_def add.commute)

text \<open>
  Claim C8, as stated: a raw wall distance of at least 0.5 is used as exactly 0.5, and one
  of at most 0 makes the direction count as having no wall. The second half fails at a
  raw distance of exactly 0: the test is \<open>thisDistance < 0.0\<close>, so the direction is kept
  and a vector is built from a zero distance. On \<open>edge_site\<close>, direction 1 has the raw
  distance 0 and direction 2 the raw distance 0.7; both yield a vector.
\<close>

theorem C8_counterexample:
  "GetWallDistances edge_site (1 - 1) = 0
   \<and> thisDistance 0 = Some 0
   \<and> thisDistance 0 \<noteq> None
   \<and> particleToWallVectors two_sites edge_site (particle_at (6 / 5, 3 / 10, - (2 / 5)))
       = [(0, 0, 0), (1 / 2, 0, 0)]"
  unfolding particleToWallVectors_def face_directions
  by (simp add: thisDistance_def edge_site_def two_sites_def)

text \<open>
  Claim C8, amended: in the loop over the face directions 1 to 6, a raw wall distance of
  at least 0.5 is used as exactly 0.5, a raw distance below 0 makes the loop skip the
  direction, and any other raw distance, 0 included, is used as it is. The vectors built
  are those of the directions with a raw distance of at least 0, in order, each from the
  raw distance capped at 0.5.
\<close>

theorem C8_wall_distance_used:
  "(1 / 2 \<le> raw \<longrightarrow> thisDistance raw = Some (1 / 2))
   \<and> (raw < 0 \<longrightarrow> thisDistance raw = None)
   \<and> (0 \<le> raw \<and> raw \<le> 1 / 2 \<longrightarrow> thisDistance raw = Some raw)
   \<and> particleToWallVectors B site particle
       = map (\<lambda>direction.
                particleToWallVector B direction (min (GetWallDistances site (direction - 1)) (1 / 2))
                  (siteGlobalPosition particle) (GetGlobalPosition particle))
           (filter (\<lambda>direction. 0 \<le> GetWallDistances site (direction - 1)) [1..<7])"
proof -
  have "particleToWallVectors B site particle
       = map (\<lambda>direction.
                particleToWallVector B direction (the (thisDistance (GetWallDistances site (direction - 1))))
                  (siteGlobalPosition particle) (GetGlobalPosition particle))
           (filter (\<lambda>direction. thisDistance (GetWallDistances site (direction - 1)) \<noteq> None) [1..<7])"
    unfolding particleToWallVectors_def by (rule concat_map_option)
  also have "\<dots> = map (\<lambda>direction.
                particleToWallVector B direction (min (GetWallDistances site (direction - 1)) (1 / 2))
                  (siteGlobalPosition particle) (GetGlobalPosition particle))
           (filter (\<lambda>direction. 0 \<le> GetWallDistances site (direction - 1)) [1..<7])"
    by (intro map_cong filter_cong refl)
       (auto simp: thisDistance_None thisDistance_Some not_less)
  finally show ?thesis
    by (simp add: thisDistance_def)
qed

theorem C8_wall_distance_used_witness:
  "thisDistance (7 / 10) = Some (1 / 2)
   \<and> thisDistance (- 1) = None
   \<and> thisDistance (1 / 4) = Some (1 / 4)
   \<and> particleToWallVectors two_sites edge_site (particle_at (6 / 5, 3 / 10, - (2 / 5)))
       = [(0, 0, 0), (1 / 2, 0, 0)]"
proof -
  have "(1 / 2 :: real) \<le> 7 / 10" "(- 1 :: real) < 0" "(0::real) \<le> 1 / 4 \<and> (1 / 4 :: real) \<le> 1 / 2"
    by simp_all
  moreover have "map (\<lambda>direction.
                particleToWallVector two_sites direction
                  (min (GetWallDistances edge_site (direction - 1)) (1 / 2))
                  (siteGlobalPosition (particle_at (6 / 5, 3 / 10, - (2 / 5))))
                  (GetGlobalPosition (particle_at (6 / 5, 3 / 10, - (2 / 5)))))
           (filter (\<lambda>direction. 0 \<le> GetWallDistances edge_site (direction - 1)) [1..<7])
         = [(0, 0, 0), (1 / 2, 0, 0)]"
    unfolding face_directions by (simp add: edge_site_def two_sites_def)
  ultimately show ?thesis
    using C8_wall_distance_used [of "7 / 10" two_sites edge_site
        "particle_at (6 / 5, 3 / 10, - (2 / 5))"]
      C8_wall_distance_used [of "- 1" two_sites edge_site
        "particle_at (6 / 5, 3 / 10, - (2 / 5))"]
      C8_wall_distance_used [of "1 / 4" two_sites edge_site
        "particle_at (6 / 5, 3 / 10, - (2 / 5))"]
    by simp
qed

text \<open>
  Claim C10, as stated: the function returns false whenever the particle's position
  rounded to the nearest lattice site is not a fluid site of this process. It does not:
  the site looked up is \<open>(site_t)(0.5 + x)\<close> on each axis, and the cast drops the fraction
  towards zero, so that below \<open>-1/2\<close> it is not the nearest site. On \<open>two_sites\<close> a
  particle at \<open>x = -6/5\<close> has the nearest site \<open>(-1, 0, 0)\<close>, which is no fluid site,
  while the code looks up \<open>(0, 0, 0)\<close>, a bulk fluid site, and returns true.
\<close>

theorem C10_counterexample:
  "nearestSite (particle_at (- (6 / 5), 3 / 10, - (2 / 5))) = (- 1, 0, 0)
   \<and> GetContiguousSiteId (latticeData two_sites)
        (nearestSite (particle_at (- (6 / 5), 3 / 10, - (2 / 5)))) = None
   \<and> siteGlobalPosition (particle_at (- (6 / 5), 3 / 10, - (2 / 5))) = (0, 0, 0)
   \<and> DoSomeThingsToParticle two_sites (particle_at (- (6 / 5), 3 / 10, - (2 / 5)))
       = (True, particle_at (- (6 / 5), 3 / 10, - (2 / 5)), 0)"
proof -
  have nearest: "nearestSite (particle_at (- (6 / 5), 3 / 10, - (2 / 5))) = (- 1, 0, 0)"
    by (simp add: nearestSite_def particle_at_def round_def)
  have none: "GetContiguousSiteId (latticeData two_sites)
        (nearestSite (particle_at (- (6 / 5), 3 / 10, - (2 / 5)))) = None"
    unfolding nearest by (simp add: two_sites_def)
  have looked_up: "siteGlobalPosition (particle_at (- (6 / 5), 3 / 10, - (2 / 5))) = (0, 0, 0)"
    by (simp add: siteGlobalPosition_def particle_at_def site_t_def)
  have kept: "DoSomeThingsToParticle two_sites (particle_at (- (6 / 5), 3 / 10, - (2 / 5)))
       = (True, particle_at (- (6 / 5), 3 / 10, - (2 / 5)), 0)"
    unfolding DoSomeThingsToParticle_def looked_up
    by (simp add: two_sites_def bulk_site_def)
  show ?thesis
    by (intro conjI) (fact nearest none looked_up kept)+
qed

text \<open>
  Claim C10, amended: the function returns false, and calls no boundary condition, whenever
  the site \<open>(site_t)(0.5 + x)\<close> on each axis (a half added and the fraction dropped towards
  zero) is not a fluid site of this process. When it is one that is neither at the wall
  edge nor of inlet or outlet type, the function returns true, calls no boundary condition
  and leaves the particle as it was. That site is the nearest lattice site when every
  coordinate is at least \<open>-1/2\<close>.
\<close>

theorem C10_particle_away_from_boundary:
  "(GetContiguousSiteId (latticeData B) (siteGlobalPosition particle) = None
      \<longrightarrow> DoSomeThingsToParticle B particle = (False, particle, 0))
   \<and> (\<forall>localContiguousId.
        GetContiguousSiteId (latticeData B) (siteGlobalPosition particle) = Some localContiguousId
        \<and> \<not> IsEdge (GetSite (latticeData B) localContiguousId)
        \<and> GetSiteType (GetSite (latticeData B) localContiguousId) \<noteq> INLET_TYPE
        \<and> GetSiteType (GetSite (latticeData B) localContiguousId) \<noteq> OUTLET_TYPE
      \<longrightarrow> DoSomeThingsToParticle B particle = (True, particle, 0))
   \<and> (\<forall>x y z. GetGlobalPosition particle = (x, y, z)
        \<and> - (1 / 2) \<le> x \<and> - (1 / 2) \<le> y \<and> - (1 / 2) \<le> z
      \<longrightarrow> siteGlobalPosition particle = nearestSite particle)"
proof (intro conjI allI impI)
  assume "GetContiguousSiteId (latticeData B) (siteGlobalPosition particle) = None"
  then show "DoSomeThingsToParticle B particle = (False, particle, 0)"
    by (simp add: DoSomeThingsToParticle_def)
next
  fix localContiguousId
  assume "GetContiguousSiteId (latticeData B) (siteGlobalPosition particle) = Some localContiguousId
        \<and> \<not> IsEdge (GetSite (latticeData B) localContiguousId)
        \<and> GetSiteType (GetSite (latticeData B) localContiguousId) \<noteq> INLET_TYPE
        \<and> GetSiteType (GetSite (latticeData B) localContiguousId) \<noteq> OUTLET_TYPE"
  then show "DoSomeThingsToParticle B particle = (True, particle, 0)"
    by (simp add: DoSomeThingsToParticle_def Let_def)
next
  fix x y z
  assume "GetGlobalPosition particle = (x, y, z)
        \<and> - (1 / 2) \<le> x \<and> - (1 / 2) \<le> y \<and> - (1 / 2) \<le> z"
  then have "site_t (0.5 + x) = round x" "site_t (0.5 + y) = round y"
    "site_t (0.5 + z) = round z"
    by (simp_all only: site_t_nearest)
  with \<open>GetGlobalPosition particle = (x, y, z)
        \<and> - (1 / 2) \<le> x \<and> - (1 / 2) \<le> y \<and> - (1 / 2) \<le> z\<close>
  show "siteGlobalPosition particle = nearestSite particle"
    unfolding siteGlobalPosition_def nearestSite_def by (simp only: prod.case)
qed

theorem C10_particle_away_from_boundary_witness:
  "siteGlobalPosition (particle_at (11 / 5, 3 / 10, - (2 / 5))) = (2, 0, 0)
   \<and> nearestSite (particle_at (11 / 5, 3 / 10, - (2 / 5))) = (2, 0, 0)
   \<and> DoSomeThingsToParticle two_sites (particle_at (11 / 5, 3 / 10, - (2 / 5)))
       = (False, particle_at (11 / 5, 3 / 10, - (2 / 5)), 0)
   \<and> siteGlobalPosition (particle_at (1 / 5, 3 / 10, - (2 / 5))) = (0, 0, 0)
   \<and> nearestSite (particle_at (1 / 5, 3 / 10, - (2 / 5))) = (0, 0, 0)
   \<and> DoSomeThingsToParticle two_sites (particle_at (1 / 5, 3 / 10, - (2 / 5)))
       = (True, particle_at (1 / 5, 3 / 10, - (2 / 5)), 0)"
proof -
  have far: "siteGlobalPosition (particle_at (11 / 5, 3 / 10, - (2 / 5))) = (2, 0, 0)"
    by (simp add: siteGlobalPosition_def particle_at_def site_t_def)
  have near: "siteGlobalPosition (particle_at (1 / 5, 3 / 10, - (2 / 5))) = (0, 0, 0)"
    by (simp add: siteGlobalPosition_def particle_at_def site_t_def)
  have none: "GetContiguousSiteId (latticeData two_sites)
                (siteGlobalPosition (particle_at (11 / 5, 3 / 10, - (2 / 5)))) = None"
    unfolding far by (simp add: two_sites_def)
  have bulk: "GetContiguousSiteId (latticeData two_sites)
                (siteGlobalPosition (particle_at (1 / 5, 3 / 10, - (2 / 5)))) = Some 0
      \<and> \<not> IsEdge (GetSite (latticeData two_sites) 0)
      \<and> GetSiteType (GetSite (latticeData two_sites) 0) \<noteq> INLET_TYPE
      \<and> GetSiteType (GetSite (latticeData two_sites) 0) \<noteq> OUTLET_TYPE"
    unfolding near by (simp add: two_sites_def bulk_site_def)
  have far_in: "GetGlobalPosition (particle_at (11 / 5, 3 / 10, - (2 / 5)))
                  = (11 / 5, 3 / 10, - (2 / 5))
      \<and> - (1 / 2) \<le> (11 / 5 :: real) \<and> - (1 / 2) \<le> (3 / 10 :: real)
      \<and> - (1 / 2) \<le> (- (2 / 5) :: real)"
    by (simp add: particle_at_def)
  have near_in: "GetGlobalPosition (particle_at (1 / 5, 3 / 10, - (2 / 5)))
                  = (1 / 5, 3 / 10, - (2 / 5))
      \<and> - (1 / 2) \<le> (1 / 5 :: real) \<and> - (1 / 2) \<le> (3 / 10 :: real)
      \<and> - (1 / 2) \<le> (- (2 / 5) :: real)"
    by (simp add: particle_at_def)
  note dropped = C10_particle_away_from_boundary [of two_sites
      "particle_at (11 / 5, 3 / 10, - (2 / 5))", THEN conjunct1, rule_format, OF none]
  note kept = C10_particle_away_from_boundary [of two_sites
      "particle_at (1 / 5, 3 / 10, - (2 / 5))", THEN conjunct2, THEN conjunct1, rule_format,
      OF bulk]
  note far_nearest = C10_particle_away_from_boundary [of two_sites
      "particle_at (11 / 5, 3 / 10, - (2 / 5))", THEN conjunct2, THEN conjunct2, rule_format,
      OF far_in, unfolded far, symmetric]
  note near_nearest = C10_particle_away_from_boundary [of two_sites
      "particle_at (1 / 5, 3 / 10, - (2 / 5))", THEN conjunct2, THEN conjunct2, rule_format,
      OF near_in, unfolded near, symmetric]
  show ?thesis
    by (intro conjI) (fact far far_nearest dropped near near_nearest kept)+
qed

end
